theory Spec2Isabelle
  imports Main
begin

section \<open>JavaScript values, errors and completions\<close>

text \<open>
  The arguments of \<^verbatim>\<open>Contract\<close> are untyped in the source and are inspected with
  \<^verbatim>\<open>typeof\<close>, \<^verbatim>\<open>Array.isArray\<close> and truthiness, so they are modelled as values
  of a small JavaScript universe. An array argument is an array of descriptor entries; an
  entry is a JSON object of which the binder reads \<^verbatim>\<open>type\<close>, \<^verbatim>\<open>name\<close>,
  \<^verbatim>\<open>stateMutability\<close> and \<^verbatim>\<open>constant\<close> (\<open>None\<close> is a missing field).
\<close>

record abi_entry =
  entry_type :: "string option"
  entry_name :: string
  entry_stateMutability :: "string option"
  entry_constant :: "bool option"

datatype js_value =
    JUndefined
  | JNull
  | JBool bool
  | JNum int
  | JStr string
  | JArr "abi_entry list"
  | JObj "(string \<times> js_value) list"

text \<open>What a throw or a rejection carries: an error object with its message, or any
  other value, since JavaScript lets every value be thrown.\<close>

datatype js_error = Error string | TypeError string | NonError js_value

text \<open>How a call completes synchronously, and how a promise is observed.\<close>

datatype 'a completion = Threw js_error | Returned 'a

datatype 'a promise = Pending | Fulfilled 'a | Rejected js_error

fun truthy :: "js_value \<Rightarrow> bool" where
  "truthy JUndefined = False"
| "truthy JNull = False"
| "truthy (JBool b) = b"
| "truthy (JNum n) = (n \<noteq> 0)"
| "truthy (JStr s) = (s \<noteq> [])"
| "truthy (JArr xs) = True"
| "truthy (JObj fs) = True"

text \<open>Reading a property: of an object its first binding, of any other truthy value
  \<^verbatim>\<open>undefined\<close>; on \<^verbatim>\<open>null\<close> and \<^verbatim>\<open>undefined\<close> the read throws.\<close>

fun get_prop :: "js_value \<Rightarrow> string \<Rightarrow> js_error + js_value" where
  "get_prop JUndefined k = Inl (TypeError ''Cannot read property of undefined'')"
| "get_prop JNull k = Inl (TypeError ''Cannot read property of null'')"
| "get_prop (JObj fs) k = Inr (case map_of fs k of None \<Rightarrow> JUndefined | Some v \<Rightarrow> v)"
| "get_prop v k = Inr JUndefined"

text \<open>The text a template literal makes of a value.\<close>

fun show_nat :: "nat \<Rightarrow> string" where
  "show_nat n =
     (if n < 10 then [''0123456789'' ! n]
      else show_nat (n div 10) @ [''0123456789'' ! (n mod 10)])"

definition show_int :: "int \<Rightarrow> string" where
  "show_int i = (if i < 0 then ''-'' @ show_nat (nat (- i)) else show_nat (nat i))"

fun join_commas :: "string list \<Rightarrow> string" where
  "join_commas [] = []"
| "join_commas [x] = x"
| "join_commas (x # y # ys) = x @ '','' @ join_commas (y # ys)"

fun toString :: "js_value \<Rightarrow> string" where
  "toString JUndefined = ''undefined''"
| "toString JNull = ''null''"
| "toString (JBool b) = (if b then ''true'' else ''false'')"
| "toString (JNum n) = show_int n"
| "toString (JStr s) = s"
| "toString (JArr xs) = join_commas (map (\<lambda>x. ''[object Object]'') xs)"
| "toString (JObj fs) = ''[object Object]''"

text \<open>The text of \<^verbatim>\<open>${error.message}\<close> for a caught value: the message of an error
  object, the text of the \<^verbatim>\<open>message\<close> property of another value, and for \<^verbatim>\<open>null\<close>
  and \<^verbatim>\<open>undefined\<close> the \<^verbatim>\<open>TypeError\<close> that reading the property throws.\<close>

fun messageText :: "js_error \<Rightarrow> js_error + string" where
  "messageText (Error m) = Inr m"
| "messageText (TypeError m) = Inr m"
| "messageText (NonError v) =
     (case get_prop v ''message'' of Inl te \<Rightarrow> Inl te | Inr x \<Rightarrow> Inr (toString x))"

section \<open>Utils\<close>

definition isHexDigit :: "char \<Rightarrow> bool" where
  "isHexDigit c \<longleftrightarrow> c \<in> set ''0123456789ABCDEFabcdef''"

text \<open>The pattern \<^verbatim>\<open>/^0x[0-9A-Fa-f]{40}$/\<close>: anchored at both ends, no flags.\<close>

definition matchesAddressPattern :: "string \<Rightarrow> bool" where
  "matchesAddressPattern s \<longleftrightarrow>
     length s = 42 \<and> take 2 s = ''0x'' \<and> list_all isHexDigit (drop 2 s)"

fun isAddress :: "js_value \<Rightarrow> bool" where
  "isAddress (JStr s) = matchesAddressPattern s"
| "isAddress v = False"

fun isArray :: "js_value \<Rightarrow> bool" where
  "isArray (JArr xs) = True"
| "isArray v = False"

definition isABI :: "js_value \<Rightarrow> bool" where
  "isABI abi \<longleftrightarrow> truthy abi \<and> isArray abi"

definition isEthersJsSigner :: "js_value \<Rightarrow> bool" where
  "isEthersJsSigner signer \<longleftrightarrow>
     truthy signer \<and> get_prop signer ''_ethersType'' = Inr (JStr ''Signer'')"

section \<open>Transactions, receipts and caller-supplied functions\<close>

record transaction =
  hash :: string

record receipt =
  confirmations :: int

text \<open>The pending handle of a submitted write, given by how it settles.\<close>

datatype tx_promise = Resolves transaction | Rejects js_error

text \<open>
  A function supplied by the caller receives either the confirmation message
  \<^verbatim>\<open>{data: {confirmations}}\<close> or an error object. It is modelled by its identity and by
  how its invocation completes: normally, by throwing, or (an async function) by a
  promise that rejects; what it throws or rejects with is any value. What such a
  function does to the subscription by calling its interface is not part of its
  invocation here: those calls are actions of their own in a run.
\<close>

datatype arg = Message int | Failure js_error

datatype outcome = Normal | ThrowsSync js_error | RejectsAsync js_error

datatype user_fn = Fn nat "arg \<Rightarrow> outcome"

fun fn_body :: "user_fn \<Rightarrow> arg \<Rightarrow> outcome" where
  "fn_body (Fn i b) = b"

text \<open>What is passed where a callback is expected: a function, or any other value.\<close>

datatype callback_arg = Function user_fn | NotAFunction js_value

section \<open>The transport\<close>

text \<open>
  A listener function handed to the transport is one of the two closures that
  \<^verbatim>\<open>#addListener\<close> creates: \<^verbatim>\<open>emitterFunction\<close> itself, or the wrapper that looks the
  receipt up again before calling it. The number is the identity of the closure (every
  registration creates new ones), the function is the caller's callback it closes over.
\<close>

datatype listener_fn = EmitterFunction nat user_fn | BlockListener nat user_fn

text \<open>
  Modelled from the spec: the provider is the ethers.js \<^verbatim>\<open>JsonRpcProvider\<close>, an external
  collaborator. Of it the model keeps the registered listeners in registration order and
  the answer of the node to a receipt lookup (\<open>Inr None\<close> is \<^verbatim>\<open>null\<close>, \<open>Inl\<close> a
  rejected lookup). \<^verbatim>\<open>on\<close> appends a registration, \<^verbatim>\<open>removeListener\<close> removes the first
  registration of that function under that key.
\<close>

record provider =
  pollingInterval :: nat
  events :: "(string \<times> listener_fn) list"
  getTransactionReceipt :: "string \<Rightarrow> js_error + receipt option"

definition provider_on :: "string \<Rightarrow> listener_fn \<Rightarrow> provider \<Rightarrow> provider" where
  "provider_on eventName listenerFunction p =
     p\<lparr>events := events p @ [(eventName, listenerFunction)]\<rparr>"

definition provider_removeListener :: "string \<Rightarrow> listener_fn \<Rightarrow> provider \<Rightarrow> provider" where
  "provider_removeListener eventName listenerFunction p =
     p\<lparr>events := remove1 (eventName, listenerFunction) (events p)\<rparr>"

section \<open>TransactionSubscription\<close>

text \<open>
  The private fields of the class. \<^verbatim>\<open>#provider\<close> is a reference to the provider shared
  with the contract, so the provider lives in the world below, beside the subscription.
\<close>

record subscription =
  txPromise :: tx_promise
  tx :: "transaction option"
  timeout :: nat
  listeners :: "(string \<times> listener_fn) list"
  errorListener :: "user_fn option"

definition new_TransactionSubscription :: "tx_promise \<Rightarrow> subscription" where
  "new_TransactionSubscription p =
     \<lparr>txPromise = p, tx = None, timeout = 2000, listeners = [], errorListener = None\<rparr>"

text \<open>
  An invocation of an async function that is suspended at an \<^verbatim>\<open>await\<close>:
  \<^verbatim>\<open>#addListener\<close> waiting for the pending handle (line 88) or for the receipt lookup
  it issued for a hash (line 107), and the block listener waiting for its own lookup
  (line 114).
\<close>

datatype suspension =
    AwaitTx user_fn
  | AwaitReceipt nat user_fn string
  | AwaitBlockReceipt user_fn string

text \<open>What the outside observes: calls of the caller's functions, rejections of promises
  nobody holds, exceptions leaving a timer callback.\<close>

datatype effect =
    Invoked user_fn arg
  | UnhandledRejection js_error
  | UncaughtException js_error

record world =
  sub :: subscription
  prov :: provider
  suspended :: "suspension list"
  timers :: "nat list"
  next_id :: nat
  trace :: "effect list"

definition new_world :: "subscription \<Rightarrow> provider \<Rightarrow> world" where
  "new_world s p = \<lparr>sub = s, prov = p, suspended = [], timers = [], next_id = 0, trace = []\<rparr>"

definition observe :: "effect \<Rightarrow> world \<Rightarrow> world" where
  "observe e w = w\<lparr>trace := trace w @ [e]\<rparr>"

text \<open>A promise that its creator neither awaits nor returns.\<close>

fun discard :: "unit promise \<times> world \<Rightarrow> world" where
  "discard (Rejected e, w) = observe (UnhandledRejection e) w"
| "discard (p, w) = w"

text \<open>An async function: whatever its body does, the caller gets a promise.\<close>

fun async :: "(js_error + 'a) \<times> world \<Rightarrow> 'a promise completion \<times> world" where
  "async (Inl e, w) = (Returned (Rejected e), w)"
| "async (Inr v, w) = (Returned (Fulfilled v), w)"

definition hasListener :: "subscription \<Rightarrow> bool" where
  "hasListener s \<longleftrightarrow> length (listeners s) > 0"

definition removeListener :: "world \<Rightarrow> world" where
  "removeListener w =
     (if hasListener (sub w) then
        let listener = last (listeners (sub w));
            w1 = w\<lparr>sub := (sub w)\<lparr>listeners := butlast (listeners (sub w))\<rparr>\<rparr>
        in w1\<lparr>prov := provider_removeListener (fst listener) (snd listener) (prov w1)\<rparr>
      else w)"

definition removeAllListeners :: "world \<Rightarrow> world" where
  "removeAllListeners w = removeListener w"

definition off :: "world \<Rightarrow> world" where
  "off w = removeListener w"

definition unsubscribe :: "world \<Rightarrow> world" where
  "unsubscribe w = removeListener w"

definition addErrorListener :: "user_fn \<Rightarrow> world \<Rightarrow> world" where
  "addErrorListener callback w = w\<lparr>sub := (sub w)\<lparr>errorListener := Some callback\<rparr>\<rparr>"

text \<open>\<^verbatim>\<open>#emitErrorEvent\<close> calls the failure handler without awaiting it: a throw of the
  handler leaves through the caller, a rejection of its promise is held by nobody.\<close>

definition emitErrorEvent :: "js_error \<Rightarrow> world \<Rightarrow> unit completion \<times> world" where
  "emitErrorEvent err w =
     (case errorListener (sub w) of
        None \<Rightarrow> (Returned (), w)
      | Some h \<Rightarrow>
          (let w1 = observe (Invoked h (Failure err)) w
           in case fn_body h (Failure err) of
                Normal \<Rightarrow> (Returned (), w1)
              | ThrowsSync e \<Rightarrow> (Threw e, w1)
              | RejectsAsync e \<Rightarrow> (Returned (), observe (UnhandledRejection e) w1)))"

definition callbackError :: "string \<Rightarrow> js_error" where
  "callbackError m = Error (''Callback function with error: '' @ m)"

definition timeoutError :: js_error where
  "timeoutError = Error ''Listener removed after reached timeout''"

definition alreadyListeningError :: js_error where
  "alreadyListeningError = Error ''Subscription already listening''"

text \<open>The \<^verbatim>\<open>catch\<close> block of \<^verbatim>\<open>emitterFunction\<close> (lines 100 to 104): the new
  error is built from \<^verbatim>\<open>error.message\<close> first, and reading that of \<^verbatim>\<open>null\<close> or
  \<^verbatim>\<open>undefined\<close> throws out of the block before \<^verbatim>\<open>#emitErrorEvent\<close> is called.\<close>

definition emitterCatch :: "js_error \<Rightarrow> world \<Rightarrow> unit promise \<times> world" where
  "emitterCatch e w =
     (case messageText e of
        Inl te \<Rightarrow> (Rejected te, w)
      | Inr m \<Rightarrow>
          (case emitErrorEvent (callbackError m) w of
             (Returned u, w1) \<Rightarrow> (Fulfilled (), w1)
           | (Threw e1, w1) \<Rightarrow> (Rejected e1, w1)))"

text \<open>\<^verbatim>\<open>emitterFunction\<close> (lines 90 to 105), closed over \<^verbatim>\<open>callback\<close>. Destructuring
  \<^verbatim>\<open>null\<close> throws before the \<^verbatim>\<open>try\<close>; \<^verbatim>\<open>await callback(message)\<close> inside the
  \<^verbatim>\<open>try\<close> catches a throw and a rejection alike.\<close>

definition emitterFunction :: "user_fn \<Rightarrow> receipt option \<Rightarrow> world \<Rightarrow> unit promise \<times> world" where
  "emitterFunction callback r w =
     (case r of
        None \<Rightarrow> (Rejected (TypeError ''Cannot destructure property confirmations of null''), w)
      | Some rc \<Rightarrow>
          (let msg = Message (confirmations rc);
               w1 = observe (Invoked callback msg) w
           in case fn_body callback msg of
                Normal \<Rightarrow> (Fulfilled (), w1)
              | ThrowsSync e \<Rightarrow> emitterCatch e w1
              | RejectsAsync e \<Rightarrow> emitterCatch e w1))"

text \<open>\<^verbatim>\<open>#addListener\<close>, up to its first \<^verbatim>\<open>await\<close> (lines 84 to 88).\<close>

definition addListener :: "string \<Rightarrow> user_fn \<Rightarrow> world \<Rightarrow> unit promise \<times> world" where
  "addListener trigger callback w =
     (if hasListener (sub w) then (Rejected alreadyListeningError, w)
      else (Pending, w\<lparr>suspended := suspended w @ [AwaitTx callback]\<rparr>))"

text \<open>From the settlement of the pending handle to the second \<^verbatim>\<open>await\<close> (lines 88 to
  107): \<^verbatim>\<open>#tx\<close> is stored, the closure is created, the lookup is issued.\<close>

definition addListener_afterTx :: "user_fn \<Rightarrow> world \<Rightarrow> unit promise \<times> world" where
  "addListener_afterTx callback w =
     (case txPromise (sub w) of
        Rejects e \<Rightarrow> (Rejected e, w)
      | Resolves t \<Rightarrow>
          (let w1 = w\<lparr>sub := (sub w)\<lparr>tx := Some t\<rparr>\<rparr>;
               w2 = w1\<lparr>next_id := Suc (next_id w1)\<rparr>
           in (Pending, w2\<lparr>suspended := suspended w2 @ [AwaitReceipt (next_id w1) callback (hash t)]\<rparr>)))"

text \<open>From the answer of the lookup to the end (lines 107 to 135). The entry pushed is
  the last of \<^verbatim>\<open>#listeners\<close>, which is the one handed to the provider.\<close>

definition addListener_afterReceipt ::
  "nat \<Rightarrow> user_fn \<Rightarrow> string \<Rightarrow> world \<Rightarrow> unit promise \<times> world" where
  "addListener_afterReceipt lid callback h w =
     (case getTransactionReceipt (prov w) h of
        Inl e \<Rightarrow> (Rejected e, w)
      | Inr r \<Rightarrow>
          (let alreadyMined = (r \<noteq> None);
               pushed =
                 (if alreadyMined then Inr (''block'', BlockListener lid callback)
                  else case tx (sub w) of
                         None \<Rightarrow> Inl (TypeError ''Cannot read property hash of undefined'')
                       | Some t \<Rightarrow> Inr (hash t, EmitterFunction lid callback))
           in case pushed of
                Inl e \<Rightarrow> (Rejected e, w)
              | Inr entry \<Rightarrow>
                  (let w1 = w\<lparr>sub := (sub w)\<lparr>listeners := listeners (sub w) @ [entry]\<rparr>\<rparr>;
                       l = last (listeners (sub w1));
                       w2 = w1\<lparr>prov := provider_on (fst l) (snd l) (prov w1)\<rparr>;
                       w3 = w2\<lparr>timers := timers w2 @ [timeout (sub w2)]\<rparr>
                   in (Fulfilled (), w3))))"

text \<open>The callback of \<^verbatim>\<open>setTimeout\<close> (lines 132 to 135).\<close>

definition timeoutCallback :: "world \<Rightarrow> world" where
  "timeoutCallback w =
     (case emitErrorEvent timeoutError (removeListener w) of
        (Returned u, w1) \<Rightarrow> w1
      | (Threw e, w1) \<Rightarrow> observe (UncaughtException e) w1)"

text \<open>The body of \<^verbatim>\<open>on\<close> (lines 38 to 52): \<^verbatim>\<open>#addListener\<close> is called and its
  promise is neither awaited nor returned.\<close>

definition triggers :: "string list" where
  "triggers = [''confirmation'', ''failed'']"

definition on_body :: "string \<Rightarrow> callback_arg \<Rightarrow> world \<Rightarrow> (js_error + unit) \<times> world" where
  "on_body trigger callback w =
     (if trigger \<notin> set triggers
      then (Inl (Error ''Invalid listener trigger, use: [confirmation,failed]''), w)
      else case callback of
             NotAFunction v \<Rightarrow> (Inl (Error ''Cannot listening without a function''), w)
           | Function f \<Rightarrow>
               (if trigger = ''failed'' then (Inr (), addErrorListener f w)
                else (Inr (), discard (addListener trigger f w))))"

definition on :: "string \<Rightarrow> callback_arg \<Rightarrow> world \<Rightarrow> unit promise completion \<times> world" where
  "on trigger callback w = async (on_body trigger callback w)"

subsection \<open>The event loop\<close>

text \<open>The block listener (lines 113 to 118), up to its \<^verbatim>\<open>await\<close>, and after it:
  \<^verbatim>\<open>emitterFunction(receipt)\<close> is called and not awaited.\<close>

definition blockListener :: "user_fn \<Rightarrow> world \<Rightarrow> unit promise \<times> world" where
  "blockListener callback w =
     (case tx (sub w) of
        None \<Rightarrow> (Rejected (TypeError ''Cannot read property hash of undefined''), w)
      | Some t \<Rightarrow> (Pending, w\<lparr>suspended := suspended w @ [AwaitBlockReceipt callback (hash t)]\<rparr>))"

definition blockListener_afterReceipt :: "user_fn \<Rightarrow> string \<Rightarrow> world \<Rightarrow> unit promise \<times> world" where
  "blockListener_afterReceipt callback h w =
     (case getTransactionReceipt (prov w) h of
        Inl e \<Rightarrow> (Rejected e, w)
      | Inr r \<Rightarrow> (Fulfilled (), discard (emitterFunction callback r w)))"

text \<open>
  Modelled from the spec: the provider calls a registered listener function with the
  payload of the event (the finalized receipt under an identifier key; the block listener
  ignores its argument) and drops what the function returns; an event reaches the
  functions registered under its key, in registration order.
\<close>

fun call_listener :: "listener_fn \<Rightarrow> receipt option \<Rightarrow> world \<Rightarrow> world" where
  "call_listener (EmitterFunction lid callback) payload w =
     discard (emitterFunction callback payload w)"
| "call_listener (BlockListener lid callback) payload w =
     discard (blockListener callback w)"

definition emit :: "string \<Rightarrow> receipt option \<Rightarrow> world \<Rightarrow> world" where
  "emit eventName payload w =
     fold (\<lambda>l. call_listener (snd l) payload)
       (filter (\<lambda>l. fst l = eventName) (events (prov w))) w"

text \<open>A suspended invocation continues once what it awaits has settled.\<close>

fun continue :: "suspension \<Rightarrow> world \<Rightarrow> world" where
  "continue (AwaitTx callback) w = discard (addListener_afterTx callback w)"
| "continue (AwaitReceipt lid callback h) w = discard (addListener_afterReceipt lid callback h w)"
| "continue (AwaitBlockReceipt callback h) w = discard (blockListener_afterReceipt callback h w)"

definition resume :: "nat \<Rightarrow> world \<Rightarrow> world" where
  "resume k w =
     (if k < length (suspended w)
      then continue (suspended w ! k) (w\<lparr>suspended := take k (suspended w) @ drop (Suc k) (suspended w)\<rparr>)
      else w)"

text \<open>The oldest timer expires: all timers of a subscription have the same delay.\<close>

definition fireTimer :: "world \<Rightarrow> world" where
  "fireTimer w =
     (case timers w of
        [] \<Rightarrow> w
      | d # ds \<Rightarrow> timeoutCallback (w\<lparr>timers := ds\<rparr>))"

text \<open>What can happen to a subscription: a call of its interface by the holder, or a
  turn of the event loop.\<close>

datatype action =
    On string callback_arg
  | RemoveListener
  | RemoveAllListeners
  | Off
  | Unsubscribe
  | Resume nat
  | FireTimer
  | Emit string "receipt option"

fun step :: "action \<Rightarrow> world \<Rightarrow> world" where
  "step (On trigger callback) w = snd (on trigger callback w)"
| "step RemoveListener w = removeListener w"
| "step RemoveAllListeners w = removeAllListeners w"
| "step Off w = off w"
| "step Unsubscribe w = unsubscribe w"
| "step (Resume k) w = resume k w"
| "step FireTimer w = fireTimer w"
| "step (Emit eventName payload) w = emit eventName payload w"

definition run :: "action list \<Rightarrow> world \<Rightarrow> world" where
  "run as w = fold step as w"

section \<open>Contract\<close>

text \<open>
  Modelled from the spec: \<^verbatim>\<open>ethers.Contract\<close> is external. Of the remote contract the
  model keeps how a call of one of its functions settles: a read by a decoded value or an
  error, a write by the pending handle of the transaction; and how the node answers a
  receipt lookup.
\<close>

record backend =
  call :: "string \<Rightarrow> js_value list \<Rightarrow> js_error + js_value"
  send :: "string \<Rightarrow> js_value list \<Rightarrow> tx_promise"
  lookup :: "string \<Rightarrow> js_error + receipt option"

record ethers_contract =
  address :: js_value
  abi :: "abi_entry list"
  signer :: js_value
  remote :: backend

datatype strategy = ReadFunction abi_entry | WriteFunction abi_entry

record contract =
  c_provider :: provider
  c_contract :: ethers_contract
  methods :: "string \<rightharpoonup> strategy"

text \<open>The steps of a construction that touch the transport object: its creation, and
  its use by \<^verbatim>\<open>wallet.connect\<close> and by \<^verbatim>\<open>new ethers.Contract\<close>.\<close>

datatype setup_step = ProviderCreated | SignerConnected | ContractBound

fun usesTransport :: "setup_step \<Rightarrow> bool" where
  "usesTransport ProviderCreated = False"
| "usesTransport SignerConnected = True"
| "usesTransport ContractBound = True"

definition getDefaultProvider :: "backend \<Rightarrow> provider" where
  "getDefaultProvider b =
     \<lparr>pollingInterval = 50, events = [], getTransactionReceipt = lookup b\<rparr>"

definition isFunctionEntry :: "abi_entry \<Rightarrow> bool" where
  "isFunctionEntry json \<longleftrightarrow> entry_type json = Some ''function''"

text \<open>The test of the binder in \<^verbatim>\<open>TasitAction.js\<close>, and the one of the older file.\<close>

definition isWrite :: "abi_entry \<Rightarrow> bool" where
  "isWrite f \<longleftrightarrow> entry_stateMutability f \<noteq> Some ''view''"

definition isWrite_old :: "abi_entry \<Rightarrow> bool" where
  "isWrite_old f \<longleftrightarrow> \<not> (entry_constant f = Some True)"

definition attachReadFunction :: "abi_entry \<Rightarrow> (string \<rightharpoonup> strategy) \<Rightarrow> (string \<rightharpoonup> strategy)" where
  "attachReadFunction f m = m(entry_name f \<mapsto> ReadFunction f)"

definition attachWriteFunction :: "abi_entry \<Rightarrow> (string \<rightharpoonup> strategy) \<Rightarrow> (string \<rightharpoonup> strategy)" where
  "attachWriteFunction f m = m(entry_name f \<mapsto> WriteFunction f)"

definition addFunctionsToContract :: "abi_entry list \<Rightarrow> (string \<rightharpoonup> strategy) \<Rightarrow> (string \<rightharpoonup> strategy)" where
  "addFunctionsToContract entries m =
     fold (\<lambda>f. if isWrite f then attachWriteFunction f else attachReadFunction f)
       (filter isFunctionEntry entries) m"

definition addFunctionsToContract_old :: "abi_entry list \<Rightarrow> (string \<rightharpoonup> strategy) \<Rightarrow> (string \<rightharpoonup> strategy)" where
  "addFunctionsToContract_old entries m =
     fold (\<lambda>f. if isWrite_old f then attachWriteFunction f else attachReadFunction f)
       (filter isFunctionEntry entries) m"

fun entries_of :: "js_value \<Rightarrow> abi_entry list" where
  "entries_of (JArr xs) = xs"
| "entries_of v = []"

definition invalidContractError :: js_error where
  "invalidContractError = Error ''Cannot create a Contract without a address and ABI''"

definition invalidWalletError :: js_error where
  "invalidWalletError = Error ''Cannot set an invalid wallet to a Contract''"

definition missingWalletError :: js_error where
  "missingWalletError = Error ''Cannot write data to a Contract without a wallet''"

text \<open>\<^verbatim>\<open>#initializeContract\<close>. A connected wallet is a signer again, and
  \<^verbatim>\<open>ethers.Contract\<close> keeps it as \<^verbatim>\<open>signer\<close>, or \<^verbatim>\<open>null\<close> when it got the provider.
  The method table is derived anew; the members of an earlier binding stay unless a
  function of the descriptor has their name.\<close>

definition initializeContract ::
  "backend \<Rightarrow> provider \<Rightarrow> (string \<rightharpoonup> strategy) \<Rightarrow> js_value \<Rightarrow> js_value \<Rightarrow> js_value \<Rightarrow>
     setup_step list \<times> (js_error + contract)" where
  "initializeContract b p m addr descriptor wallet =
     (if \<not> isAddress addr \<or> \<not> isABI descriptor then ([], Inl invalidContractError)
      else if truthy wallet \<and> \<not> isEthersJsSigner wallet then ([], Inl invalidWalletError)
      else
        (let connected = (if truthy wallet then [SignerConnected] else []);
             c = \<lparr>address = addr, abi = entries_of descriptor,
                  signer = (if truthy wallet then wallet else JNull), remote = b\<rparr>
         in (connected @ [ContractBound],
             Inr \<lparr>c_provider = p, c_contract = c,
                  methods = addFunctionsToContract (abi c) m\<rparr>)))"

text \<open>The constructor: the provider is created first, then the contract is initialized.\<close>

definition new_Contract ::
  "backend \<Rightarrow> js_value \<Rightarrow> js_value \<Rightarrow> js_value \<Rightarrow> setup_step list \<times> (js_error + contract)" where
  "new_Contract b addr descriptor wallet =
     (let p = getDefaultProvider b;
          (steps, r) = initializeContract b p Map.empty addr descriptor wallet
      in (ProviderCreated # steps, r))"

definition setWallet :: "js_value \<Rightarrow> contract \<Rightarrow> js_error + contract" where
  "setWallet wallet c =
     (if \<not> isEthersJsSigner wallet then Inl invalidWalletError
      else snd (initializeContract (remote (c_contract c)) (c_provider c) (methods c)
                  (address (c_contract c)) (JArr (abi (c_contract c))) wallet))"

definition removeWallet :: "contract \<Rightarrow> js_error + contract" where
  "removeWallet c =
     snd (initializeContract (remote (c_contract c)) (c_provider c) (methods c)
            (address (c_contract c)) (JArr (abi (c_contract c))) JUndefined)"

text \<open>What a bound method hands back: the promise of an async read, or a subscription.\<close>

datatype invoke_result = ReadResult "js_value promise" | WriteResult subscription

fun settled :: "js_error + 'a \<Rightarrow> 'a promise" where
  "settled (Inl e) = Rejected e"
| "settled (Inr v) = Fulfilled v"

definition readFunction :: "abi_entry \<Rightarrow> contract \<Rightarrow> js_value list \<Rightarrow> invoke_result completion" where
  "readFunction f c args =
     Returned (ReadResult (settled (call (remote (c_contract c)) (entry_name f) args)))"

definition writeFunction :: "abi_entry \<Rightarrow> contract \<Rightarrow> js_value list \<Rightarrow> invoke_result completion" where
  "writeFunction f c args =
     (if \<not> isEthersJsSigner (signer (c_contract c)) then Threw missingWalletError
      else Returned (WriteResult
             (new_TransactionSubscription (send (remote (c_contract c)) (entry_name f) args))))"

text \<open>Calling the member \<open>nm\<close> of a contract object with arguments.\<close>

definition invoke :: "contract \<Rightarrow> string \<Rightarrow> js_value list \<Rightarrow> invoke_result completion" where
  "invoke c nm args =
     (case methods c nm of
        None \<Rightarrow> Threw (TypeError (nm @ '' is not a function''))
      | Some (ReadFunction f) \<Rightarrow> readFunction f c args
      | Some (WriteFunction f) \<Rightarrow> writeFunction f c args)"

section \<open>The error kinds of the specification\<close>

text \<open>
  The source raises plain \<^verbatim>\<open>Error\<close> objects that differ in their message. The
  specification names kinds: \<open>InvalidArgument\<close> is a malformed address, descriptor or
  signer at construction or bind time, \<open>MissingSigner\<close> a write without a bound signer,
  \<open>AlreadyListening\<close> a second confirmation listener, \<open>CallbackFailure\<close> a callback
  that threw, \<open>Timeout\<close> a confirmation not observed within the bound.
\<close>

datatype error_kind = InvalidArgument | MissingSigner | AlreadyListening | CallbackFailure | Timeout

fun isCallbackError :: "js_error \<Rightarrow> bool" where
  "isCallbackError (Error m) = (take 30 m = ''Callback function with error: '')"
| "isCallbackError (TypeError m) = False"
| "isCallbackError (NonError v) = False"

definition kindOf :: "js_error \<Rightarrow> error_kind option" where
  "kindOf e =
     (if e = invalidContractError \<or> e = invalidWalletError then Some InvalidArgument
      else if e = missingWalletError then Some MissingSigner
      else if e = alreadyListeningError then Some AlreadyListening
      else if e = timeoutError then Some Timeout
      else if isCallbackError e then Some CallbackFailure
      else None)"

definition failsWith :: "error_kind \<Rightarrow> js_error + 'a \<Rightarrow> bool" where
  "failsWith k r = (case r of Inl e \<Rightarrow> kindOf e = Some k | Inr v \<Rightarrow> False)"

text \<open>An action that registers a confirmation listener.\<close>

fun registersConfirmation :: "action \<Rightarrow> bool" where
  "registersConfirmation (On trigger (Function f)) = (trigger = ''confirmation'')"
| "registersConfirmation a = False"

text \<open>No registration of a confirmation listener has happened or is under way: no
  listener is held, and the suspended invocations, if any, are block listeners.\<close>

fun isBlockWait :: "suspension \<Rightarrow> bool" where
  "isBlockWait (AwaitBlockReceipt callback h) = True"
| "isBlockWait t = False"

definition unregistered :: "world \<Rightarrow> bool" where
  "unregistered w \<longleftrightarrow> listeners (sub w) = [] \<and> list_all isBlockWait (suspended w)"

text \<open>The registrations under way, and the bound the class is written for (the comment
  above it: \<^verbatim>\<open>maxListeners = 1\<close>), counted over the listeners held and those about to
  be pushed.\<close>

definition registrationsPending :: "world \<Rightarrow> nat" where
  "registrationsPending w = length (filter (\<lambda>s. \<not> isBlockWait s) (suspended w))"

definition atMostOne :: "world \<Rightarrow> bool" where
  "atMostOne w \<longleftrightarrow> length (listeners (sub w)) + registrationsPending w \<le> 1"

section \<open>Example inputs\<close>

definition quiet :: "arg \<Rightarrow> outcome" where
  "quiet a = Normal"

definition failing :: "arg \<Rightarrow> outcome" where
  "failing a = ThrowsSync (Error ''boom'')"

definition throwsNull :: "arg \<Rightarrow> outcome" where
  "throwsNull a = ThrowsSync (NonError JNull)"

definition rejectsUndefined :: "arg \<Rightarrow> outcome" where
  "rejectsUndefined a = RejectsAsync (NonError JUndefined)"

definition throwsText :: "arg \<Rightarrow> outcome" where
  "throwsText a = ThrowsSync (NonError (JStr ''boom''))"

definition noReceipt :: "string \<Rightarrow> js_error + receipt option" where
  "noReceipt h = Inr None"

definition minedReceipt :: "string \<Rightarrow> js_error + receipt option" where
  "minedReceipt h = Inr (Some \<lparr>confirmations = 1\<rparr>)"

definition exampleTx :: transaction where
  "exampleTx = \<lparr>hash = ''0xabc''\<rparr>"

definition exampleCall :: "string \<Rightarrow> js_value list \<Rightarrow> js_error + js_value" where
  "exampleCall nm args = Inr (JStr ''Hello'')"

definition exampleSend :: "string \<Rightarrow> js_value list \<Rightarrow> tx_promise" where
  "exampleSend nm args = Resolves exampleTx"

definition exampleBackend :: backend where
  "exampleBackend = \<lparr>call = exampleCall, send = exampleSend, lookup = noReceipt\<rparr>"

definition minedBackend :: backend where
  "minedBackend = \<lparr>call = exampleCall, send = exampleSend, lookup = minedReceipt\<rparr>"

definition exampleAddress :: js_value where
  "exampleAddress = JStr ''0x88a5C2d9919e46F883EB62F7b8Dd9d0CC45bc290''"

definition valueEntry :: abi_entry where
  "valueEntry = \<lparr>entry_type = Some ''function'', entry_name = ''getValue'',
     entry_stateMutability = Some ''view'', entry_constant = Some True\<rparr>"

definition setValueEntry :: abi_entry where
  "setValueEntry = \<lparr>entry_type = Some ''function'', entry_name = ''setValue'',
     entry_stateMutability = Some ''nonpayable'', entry_constant = Some False\<rparr>"

definition pureEntry :: abi_entry where
  "pureEntry = \<lparr>entry_type = Some ''function'', entry_name = ''double'',
     entry_stateMutability = Some ''pure'', entry_constant = Some True\<rparr>"

definition exampleABI :: js_value where
  "exampleABI = JArr [valueEntry, setValueEntry]"

definition exampleWallet :: js_value where
  "exampleWallet = JObj [(''_ethersType'', JStr ''Signer'')]"

definition notAWallet :: js_value where
  "notAWallet = JObj [(''address'', JStr ''0x00'')]"

text \<open>A subscription as the write method makes it, in a world with the default provider;
  and the same after a confirmation listener has been registered and attached.\<close>

definition freshWorld :: world where
  "freshWorld = new_world (new_TransactionSubscription (Resolves exampleTx))
     (getDefaultProvider exampleBackend)"

definition minedWorld :: world where
  "minedWorld = new_world (new_TransactionSubscription (Resolves exampleTx))
     (getDefaultProvider minedBackend)"

definition listeningWorld :: world where
  "listeningWorld = run [On ''confirmation'' (Function (Fn 1 quiet)), Resume 0, Resume 0] freshWorld"

definition watchedWorld :: world where
  "watchedWorld = run [On ''failed'' (Function (Fn 9 quiet)),
     On ''confirmation'' (Function (Fn 1 quiet)), Resume 0, Resume 0] freshWorld"

definition handledWorld :: world where
  "handledWorld = run [On ''failed'' (Function (Fn 9 quiet))] freshWorld"

text \<open>The example contract without a wallet and with one, as the constructor builds it.\<close>

definition readOnlyContract :: contract where
  "readOnlyContract =
     \<lparr>c_provider = getDefaultProvider exampleBackend,
      c_contract = \<lparr>address = exampleAddress, abi = [valueEntry, setValueEntry],
        signer = JNull, remote = exampleBackend\<rparr>,
      methods = addFunctionsToContract [valueEntry, setValueEntry] Map.empty\<rparr>"

definition signingContract :: contract where
  "signingContract =
     \<lparr>c_provider = getDefaultProvider exampleBackend,
      c_contract = \<lparr>address = exampleAddress, abi = [valueEntry, setValueEntry],
        signer = exampleWallet, remote = exampleBackend\<rparr>,
      methods = addFunctionsToContract [valueEntry, setValueEntry] Map.empty\<rparr>"

section \<open>Basic facts\<close>

lemmas subscription_defs =
  run_def on_def on_body_def triggers_def addListener_def resume_def
  addListener_afterTx_def addListener_afterReceipt_def provider_on_def Let_def
  removeListener_def hasListener_def provider_removeListener_def observe_def
  emitErrorEvent_def emitterFunction_def emitterCatch_def timeoutCallback_def fireTimer_def
  emit_def blockListener_def blockListener_afterReceipt_def addErrorListener_def
  off_def unsubscribe_def removeAllListeners_def new_world_def new_TransactionSubscription_def

lemmas error_defs =
  invalidContractError_def invalidWalletError_def missingWalletError_def
  alreadyListeningError_def timeoutError_def

lemma kindOf_invalidContractError: "kindOf invalidContractError = Some InvalidArgument"
  by (simp add: kindOf_def)

lemma kindOf_invalidWalletError: "kindOf invalidWalletError = Some InvalidArgument"
  by (simp add: kindOf_def)

lemma kindOf_missingWalletError: "kindOf missingWalletError = Some MissingSigner"
  by (simp add: kindOf_def error_defs)

lemma kindOf_alreadyListeningError: "kindOf alreadyListeningError = Some AlreadyListening"
  by (simp add: kindOf_def error_defs)

lemma kindOf_timeoutError: "kindOf timeoutError = Some Timeout"
  by (simp add: kindOf_def error_defs)

lemma kindOf_callbackError: "kindOf (callbackError m) = Some CallbackFailure"
  by (simp add: kindOf_def callbackError_def error_defs)

subsection \<open>What a dropped promise and a listener call leave untouched\<close>

lemma discard_sub: "sub (discard pw) = sub (snd pw)"
  by (cases pw rule: discard.cases) (simp_all add: observe_def)

lemma discard_suspended: "suspended (discard pw) = suspended (snd pw)"
  by (cases pw rule: discard.cases) (simp_all add: observe_def)

lemma emitterFunction_sub: "sub (snd (emitterFunction cb r w)) = sub w"
  by (simp add: emitterFunction_def emitterCatch_def emitErrorEvent_def observe_def Let_def
      split: option.splits outcome.splits sum.splits)

lemma emitterFunction_suspended: "suspended (snd (emitterFunction cb r w)) = suspended w"
  by (simp add: emitterFunction_def emitterCatch_def emitErrorEvent_def observe_def Let_def
      split: option.splits outcome.splits sum.splits)

subsection \<open>The example worlds, evaluated\<close>

lemma freshWorld_eq:
  "freshWorld =
     \<lparr>sub = \<lparr>txPromise = Resolves exampleTx, tx = None, timeout = 2000, listeners = [],
              errorListener = None\<rparr>,
      prov = \<lparr>pollingInterval = 50, events = [], getTransactionReceipt = noReceipt\<rparr>,
      suspended = [], timers = [], next_id = 0, trace = []\<rparr>"
  by (simp add: freshWorld_def new_world_def new_TransactionSubscription_def
      getDefaultProvider_def exampleBackend_def)

lemma minedWorld_eq:
  "minedWorld =
     \<lparr>sub = \<lparr>txPromise = Resolves exampleTx, tx = None, timeout = 2000, listeners = [],
              errorListener = None\<rparr>,
      prov = \<lparr>pollingInterval = 50, events = [], getTransactionReceipt = minedReceipt\<rparr>,
      suspended = [], timers = [], next_id = 0, trace = []\<rparr>"
  by (simp add: minedWorld_def new_world_def new_TransactionSubscription_def
      getDefaultProvider_def minedBackend_def)

lemma listeningWorld_eq:
  "listeningWorld =
     \<lparr>sub = \<lparr>txPromise = Resolves exampleTx, tx = Some exampleTx, timeout = 2000,
              listeners = [(''0xabc'', EmitterFunction 0 (Fn 1 quiet))],
              errorListener = None\<rparr>,
      prov = \<lparr>pollingInterval = 50, events = [(''0xabc'', EmitterFunction 0 (Fn 1 quiet))],
               getTransactionReceipt = noReceipt\<rparr>,
      suspended = [], timers = [2000], next_id = Suc 0, trace = []\<rparr>"
  by (simp add: listeningWorld_def freshWorld_eq subscription_defs noReceipt_def exampleTx_def)

lemma watchedWorld_eq:
  "watchedWorld =
     \<lparr>sub = \<lparr>txPromise = Resolves exampleTx, tx = Some exampleTx, timeout = 2000,
              listeners = [(''0xabc'', EmitterFunction 0 (Fn 1 quiet))],
              errorListener = Some (Fn 9 quiet)\<rparr>,
      prov = \<lparr>pollingInterval = 50, events = [(''0xabc'', EmitterFunction 0 (Fn 1 quiet))],
               getTransactionReceipt = noReceipt\<rparr>,
      suspended = [], timers = [2000], next_id = Suc 0, trace = []\<rparr>"
  by (simp add: watchedWorld_def freshWorld_eq subscription_defs noReceipt_def exampleTx_def)

lemma handledWorld_eq:
  "handledWorld =
     \<lparr>sub = \<lparr>txPromise = Resolves exampleTx, tx = None, timeout = 2000, listeners = [],
              errorListener = Some (Fn 9 quiet)\<rparr>,
      prov = \<lparr>pollingInterval = 50, events = [], getTransactionReceipt = noReceipt\<rparr>,
      suspended = [], timers = [], next_id = 0, trace = []\<rparr>"
  by (simp add: handledWorld_def freshWorld_eq subscription_defs)

subsection \<open>A registration from the call to the attached listener\<close>

text \<open>The call of \<^verbatim>\<open>on\<close>, the settlement of the pending handle and the answer of the
  lookup, with nothing in between: the three segments of \<^verbatim>\<open>#addListener\<close>.\<close>

lemma register_run:
  assumes "\<not> hasListener (sub w)" and "txPromise (sub w) = Resolves t"
    and "getTransactionReceipt (prov w) (hash t) = Inr r"
  shows "run [On ''confirmation'' (Function cb), Resume (length (suspended w)),
              Resume (length (suspended w))] w =
     (let entry = (if r \<noteq> None then (''block'', BlockListener (next_id w) cb)
                   else (hash t, EmitterFunction (next_id w) cb))
      in w\<lparr>sub := (sub w)\<lparr>tx := Some t, listeners := listeners (sub w) @ [entry]\<rparr>,
           prov := (prov w)\<lparr>events := events (prov w) @ [entry]\<rparr>,
           timers := timers w @ [timeout (sub w)],
           next_id := Suc (next_id w)\<rparr>)"
  using assms
  by (simp add: run_def on_def on_body_def triggers_def addListener_def resume_def
      addListener_afterTx_def addListener_afterReceipt_def provider_on_def Let_def)

section \<open>Registration while a listener is active\<close>

text \<open>
  C1, as the code has it. \<^verbatim>\<open>on\<close> is an async function, so it never raises to its caller:
  it returns a promise. With a confirmation listener active the error "Subscription
  already listening" is raised inside \<^verbatim>\<open>#addListener\<close>, whose promise rejects with it;
  the call adds no listener, suspends nothing, starts no timer and leaves the transport
  as it was. Once the one active listener has been removed, a new
  \<^verbatim>\<open>on("confirmation", cb)\<close> passes the guard and, when the pending handle has resolved
  and the receipt lookup has answered, the new listener is the one attached.
\<close>

theorem on_while_listening:
  "(hasListener (sub w) \<longrightarrow>
      (\<exists>p. fst (on ''confirmation'' (Function cb) w) = Returned p)
      \<and> addListener ''confirmation'' cb w = (Rejected alreadyListeningError, w)
      \<and> kindOf alreadyListeningError = Some AlreadyListening
      \<and> sub (snd (on ''confirmation'' (Function cb) w)) = sub w
      \<and> prov (snd (on ''confirmation'' (Function cb) w)) = prov w
      \<and> suspended (snd (on ''confirmation'' (Function cb) w)) = suspended w
      \<and> timers (snd (on ''confirmation'' (Function cb) w)) = timers w)
   \<and> (listeners (sub w) = [l] \<and> txPromise (sub w) = Resolves t
        \<and> getTransactionReceipt (prov w) (hash t) = Inr r \<longrightarrow>
      addListener ''confirmation'' cb (removeListener w) =
        (Pending, (removeListener w)\<lparr>suspended := suspended w @ [AwaitTx cb]\<rparr>)
      \<and> (\<exists>p. on ''confirmation'' (Function cb) (removeListener w) =
            (Returned p, (removeListener w)\<lparr>suspended := suspended w @ [AwaitTx cb]\<rparr>))
      \<and> listeners (sub (run [RemoveListener, On ''confirmation'' (Function cb),
            Resume (length (suspended w)), Resume (length (suspended w))] w)) =
          [if r \<noteq> None then (''block'', BlockListener (next_id w) cb)
           else (hash t, EmitterFunction (next_id w) cb)])"
proof (intro conjI impI)
  show "kindOf alreadyListeningError = Some AlreadyListening"
    by (rule kindOf_alreadyListeningError)
next
  assume h: "hasListener (sub w)"
  then show "\<exists>p. fst (on ''confirmation'' (Function cb) w) = Returned p"
    by (simp add: on_def on_body_def triggers_def addListener_def)
  from h show "addListener ''confirmation'' cb w = (Rejected alreadyListeningError, w)"
    by (simp add: addListener_def)
  from h show "sub (snd (on ''confirmation'' (Function cb) w)) = sub w"
    by (simp add: on_def on_body_def triggers_def addListener_def observe_def)
  from h show "prov (snd (on ''confirmation'' (Function cb) w)) = prov w"
    by (simp add: on_def on_body_def triggers_def addListener_def observe_def)
  from h show "suspended (snd (on ''confirmation'' (Function cb) w)) = suspended w"
    by (simp add: on_def on_body_def triggers_def addListener_def observe_def)
  from h show "timers (snd (on ''confirmation'' (Function cb) w)) = timers w"
    by (simp add: on_def on_body_def triggers_def addListener_def observe_def)
next
  assume a: "listeners (sub w) = [l] \<and> txPromise (sub w) = Resolves t
        \<and> getTransactionReceipt (prov w) (hash t) = Inr r"
  let ?w = "removeListener w"
  from a have nl: "\<not> hasListener (sub ?w)"
    by (simp add: removeListener_def hasListener_def Let_def)
  from a have tk: "suspended ?w = suspended w"
    by (simp add: removeListener_def hasListener_def Let_def)
  from a have tp: "txPromise (sub ?w) = Resolves t"
    by (simp add: removeListener_def hasListener_def Let_def)
  from a have gr: "getTransactionReceipt (prov ?w) (hash t) = Inr r"
    by (simp add: removeListener_def hasListener_def Let_def provider_removeListener_def)
  from a have ni: "next_id ?w = next_id w"
    by (simp add: removeListener_def hasListener_def Let_def)
  from a have ls: "listeners (sub ?w) = []"
    by (simp add: removeListener_def hasListener_def Let_def)
  from nl tk show "addListener ''confirmation'' cb ?w =
      (Pending, ?w\<lparr>suspended := suspended w @ [AwaitTx cb]\<rparr>)"
    by (simp add: addListener_def)
  from nl tk show "\<exists>p. on ''confirmation'' (Function cb) ?w =
      (Returned p, ?w\<lparr>suspended := suspended w @ [AwaitTx cb]\<rparr>)"
    by (simp add: on_def on_body_def triggers_def addListener_def)
  have "run [RemoveListener, On ''confirmation'' (Function cb),
            Resume (length (suspended w)), Resume (length (suspended w))] w
       = run [On ''confirmation'' (Function cb),
            Resume (length (suspended ?w)), Resume (length (suspended ?w))] ?w"
    by (simp add: run_def tk)
  with register_run [OF nl tp gr, of cb] ni ls
  show "listeners (sub (run [RemoveListener, On ''confirmation'' (Function cb),
            Resume (length (suspended w)), Resume (length (suspended w))] w)) =
          [if r \<noteq> None then (''block'', BlockListener (next_id w) cb)
           else (hash t, EmitterFunction (next_id w) cb)]"
    by (simp add: Let_def)
qed

text \<open>At the subscription of the example, which is listening for its first callback.\<close>

theorem on_while_listening_witness:
  "hasListener (sub listeningWorld)
   \<and> listeners (sub listeningWorld) = [(''0xabc'', EmitterFunction 0 (Fn 1 quiet))]
   \<and> txPromise (sub listeningWorld) = Resolves exampleTx
   \<and> getTransactionReceipt (prov listeningWorld) (hash exampleTx) = Inr None
   \<and> (\<exists>p. fst (on ''confirmation'' (Function (Fn 2 quiet)) listeningWorld) = Returned p)
   \<and> addListener ''confirmation'' (Fn 2 quiet) listeningWorld =
       (Rejected alreadyListeningError, listeningWorld)
   \<and> sub (snd (on ''confirmation'' (Function (Fn 2 quiet)) listeningWorld)) = sub listeningWorld
   \<and> listeners (sub (run [RemoveListener, On ''confirmation'' (Function (Fn 2 quiet)),
        Resume 0, Resume 0] listeningWorld)) = [(''0xabc'', EmitterFunction (Suc 0) (Fn 2 quiet))]"
  using on_while_listening [where w = listeningWorld and cb = "Fn 2 quiet"
      and l = "(''0xabc'', EmitterFunction 0 (Fn 1 quiet))" and t = exampleTx and r = None]
  by (simp add: listeningWorld_eq hasListener_def noReceipt_def exampleTx_def)

text \<open>The claim as written fails there: the caller of \<^verbatim>\<open>on\<close> gets a promise back, and
  not even a rejected one.\<close>

theorem on_while_listening_counterexample:
  "hasListener (sub listeningWorld)
   \<and> fst (on ''confirmation'' (Function (Fn 2 quiet)) listeningWorld) = Returned (Fulfilled ())
   \<and> fst (on ''confirmation'' (Function (Fn 2 quiet)) listeningWorld) \<noteq> Threw alreadyListeningError"
  by (simp add: listeningWorld_eq hasListener_def on_def on_body_def triggers_def addListener_def)

section \<open>The key of the confirmation listener\<close>

text \<open>
  C4. A registration on a subscription that holds no listener, whose pending handle
  resolves to \<open>t\<close>: if the lookup of the receipt of \<open>hash t\<close> answers with a receipt, the
  listener is the block listener, held and registered under \<^verbatim>\<open>"block"\<close>; if it answers
  \<^verbatim>\<open>null\<close>, the listener is \<^verbatim>\<open>emitterFunction\<close>, held and registered under \<open>hash t\<close>.
  Each call of the block listener issues the lookup for \<open>hash t\<close> again and hands its
  answer to \<^verbatim>\<open>emitterFunction\<close>.
\<close>

theorem confirmation_listener_key:
  assumes "\<not> hasListener (sub w)" and "txPromise (sub w) = Resolves t"
    and "getTransactionReceipt (prov w) (hash t) = Inr r"
  shows "(r \<noteq> None \<longrightarrow>
            listeners (sub (run [On ''confirmation'' (Function cb), Resume (length (suspended w)),
              Resume (length (suspended w))] w)) = [(''block'', BlockListener (next_id w) cb)]
          \<and> events (prov (run [On ''confirmation'' (Function cb), Resume (length (suspended w)),
              Resume (length (suspended w))] w)) =
              events (prov w) @ [(''block'', BlockListener (next_id w) cb)])
       \<and> (r = None \<longrightarrow>
            listeners (sub (run [On ''confirmation'' (Function cb), Resume (length (suspended w)),
              Resume (length (suspended w))] w)) = [(hash t, EmitterFunction (next_id w) cb)]
          \<and> events (prov (run [On ''confirmation'' (Function cb), Resume (length (suspended w)),
              Resume (length (suspended w))] w)) =
              events (prov w) @ [(hash t, EmitterFunction (next_id w) cb)])
       \<and> (\<forall>v. tx (sub v) = Some t \<longrightarrow>
            call_listener (BlockListener lid cb) payload v =
              v\<lparr>suspended := suspended v @ [AwaitBlockReceipt cb (hash t)]\<rparr>)
       \<and> (\<forall>v q. getTransactionReceipt (prov v) (hash t) = Inr q \<longrightarrow>
            continue (AwaitBlockReceipt cb (hash t)) v = discard (emitterFunction cb q v))"
proof -
  from assms(1) have e: "listeners (sub w) = []" by (simp add: hasListener_def)
  show ?thesis
    using register_run [OF assms, of cb] e
    by (simp add: Let_def blockListener_def blockListener_afterReceipt_def)
qed

theorem confirmation_listener_key_witness:
  "\<not> hasListener (sub freshWorld) \<and> \<not> hasListener (sub minedWorld)
   \<and> txPromise (sub freshWorld) = Resolves exampleTx
   \<and> txPromise (sub minedWorld) = Resolves exampleTx
   \<and> getTransactionReceipt (prov freshWorld) (hash exampleTx) = Inr None
   \<and> getTransactionReceipt (prov minedWorld) (hash exampleTx) = Inr (Some \<lparr>confirmations = 1\<rparr>)
   \<and> tx (sub listeningWorld) = Some exampleTx
   \<and> listeners (sub (run [On ''confirmation'' (Function (Fn 1 quiet)), Resume 0, Resume 0]
        freshWorld)) = [(''0xabc'', EmitterFunction 0 (Fn 1 quiet))]
   \<and> listeners (sub (run [On ''confirmation'' (Function (Fn 1 quiet)), Resume 0, Resume 0]
        minedWorld)) = [(''block'', BlockListener 0 (Fn 1 quiet))]
   \<and> events (prov (run [On ''confirmation'' (Function (Fn 1 quiet)), Resume 0, Resume 0]
        minedWorld)) = [(''block'', BlockListener 0 (Fn 1 quiet))]
   \<and> call_listener (BlockListener 0 (Fn 1 quiet)) None listeningWorld =
       listeningWorld\<lparr>suspended := [AwaitBlockReceipt (Fn 1 quiet) ''0xabc'']\<rparr>
   \<and> continue (AwaitBlockReceipt (Fn 1 quiet) ''0xabc'') minedWorld =
       observe (Invoked (Fn 1 quiet) (Message 1)) minedWorld"
  using confirmation_listener_key [where w = freshWorld and t = exampleTx and r = None
      and cb = "Fn 1 quiet" and lid = 0 and payload = None]
    confirmation_listener_key [where w = minedWorld and t = exampleTx
      and r = "Some \<lparr>confirmations = 1\<rparr>" and cb = "Fn 1 quiet" and lid = 0 and payload = None]
  by (simp add: freshWorld_eq minedWorld_eq listeningWorld_eq hasListener_def noReceipt_def
      minedReceipt_def exampleTx_def emitterFunction_def observe_def quiet_def)

section \<open>How many listeners a subscription holds\<close>

text \<open>What holds of the single operations: a failure handler is stored beside the
  listeners, a completed registration pushes one entry, a removal pops one entry and
  takes its registration off the provider, and does nothing when no entry is held.\<close>

lemma failed_keeps_listeners:
  "listeners (sub (snd (on ''failed'' callback w))) = listeners (sub w)
   \<and> events (prov (snd (on ''failed'' callback w))) = events (prov w)"
  by (cases callback) (simp_all add: on_def on_body_def triggers_def addErrorListener_def)

lemma afterReceipt_pushes_one:
  "fst (addListener_afterReceipt lid cb h w) = Fulfilled u \<Longrightarrow>
   length (listeners (sub (snd (addListener_afterReceipt lid cb h w)))) =
     Suc (length (listeners (sub w)))"
  by (simp add: addListener_afterReceipt_def Let_def split: sum.splits option.splits if_splits)

lemma removeListener_idle: "\<not> hasListener (sub w) \<Longrightarrow> removeListener w = w"
  by (simp add: removeListener_def)

lemma removeListener_pops:
  "listeners (sub w) = ls @ [(k, fn)] \<Longrightarrow>
   listeners (sub (removeListener w)) = ls
   \<and> events (prov (removeListener w)) = remove1 (k, fn) (events (prov w))"
  by (simp add: removeListener_def hasListener_def Let_def provider_removeListener_def)

lemma removeListener_twice:
  "length (listeners (sub w)) \<le> 1 \<Longrightarrow> removeListener (removeListener w) = removeListener w"
proof (cases "listeners (sub w)")
  case Nil
  then show ?thesis by (simp add: removeListener_def hasListener_def)
next
  case (Cons x xs)
  assume "length (listeners (sub w)) \<le> 1"
  with Cons have "listeners (sub w) = [] @ [(fst x, snd x)]" by simp
  from removeListener_pops [OF this] have "\<not> hasListener (sub (removeListener w))"
    by (simp add: hasListener_def)
  then show ?thesis by (rule removeListener_idle)
qed

subsection \<open>One registration at a time keeps the bound\<close>

text \<open>Counting the registrations under way with the listeners held, every step keeps
  the bound of one, provided no \<^verbatim>\<open>on("confirmation", f)\<close> is called while another
  registration is still under way.\<close>

lemma atMostOne_discard: "atMostOne (discard pw) = atMostOne (snd pw)"
  by (simp add: atMostOne_def registrationsPending_def discard_sub discard_suspended)

lemma atMostOne_emitterFunction: "atMostOne (snd (emitterFunction cb r w)) = atMostOne w"
  by (simp add: atMostOne_def registrationsPending_def emitterFunction_sub emitterFunction_suspended)

lemma atMostOne_call_listener:
  assumes "atMostOne w"
  shows "atMostOne (call_listener fn payload w)"
proof (cases fn)
  case (EmitterFunction lid cb)
  with assms show ?thesis by (simp add: atMostOne_discard atMostOne_emitterFunction)
next
  case (BlockListener lid cb)
  with assms show ?thesis
    by (simp add: blockListener_def atMostOne_def registrationsPending_def observe_def
        split: option.splits)
qed

lemma atMostOne_emit: "atMostOne w \<Longrightarrow> atMostOne (emit k payload w)"
  unfolding emit_def
  by (rule fold_invariant [where Q = "\<lambda>x. True" and P = atMostOne])
     (simp_all add: atMostOne_call_listener)

lemma atMostOne_removeListener: "atMostOne w \<Longrightarrow> atMostOne (removeListener w)"
  by (simp add: atMostOne_def registrationsPending_def removeListener_def Let_def)

lemma atMostOne_timeoutCallback: "atMostOne w \<Longrightarrow> atMostOne (timeoutCallback w)"
  by (simp add: atMostOne_def registrationsPending_def timeoutCallback_def removeListener_def
      emitErrorEvent_def observe_def Let_def split: option.splits outcome.splits)

lemma atMostOne_fireTimer:
  assumes "atMostOne w"
  shows "atMostOne (fireTimer w)"
proof (cases "timers w")
  case Nil
  with assms show ?thesis by (simp add: fireTimer_def)
next
  case (Cons d ds)
  from assms have "atMostOne (w\<lparr>timers := ds\<rparr>)"
    by (simp add: atMostOne_def registrationsPending_def)
  then show ?thesis using Cons by (simp add: fireTimer_def atMostOne_timeoutCallback)
qed

lemma filter_without_nth:
  assumes "k < length xs"
  shows "length (filter P xs) =
     length (filter P (take k xs @ drop (Suc k) xs)) + (if P (xs ! k) then 1 else 0)"
proof -
  from assms have "xs = take k xs @ xs ! k # drop (Suc k) xs" by (rule id_take_nth_drop)
  then have "filter P xs = filter P (take k xs @ xs ! k # drop (Suc k) xs)" by simp
  then show ?thesis by simp
qed

lemma atMostOne_continue:
  assumes "length (listeners (sub w)) + registrationsPending w + (if isBlockWait s then 0 else 1) \<le> 1"
  shows "atMostOne (continue s w)"
  using assms
  by (cases s)
     (auto simp: atMostOne_def registrationsPending_def discard_sub discard_suspended
        addListener_afterTx_def addListener_afterReceipt_def blockListener_afterReceipt_def
        emitterFunction_sub emitterFunction_suspended provider_on_def Let_def
        split: tx_promise.splits sum.splits option.splits if_splits)

lemma atMostOne_resume:
  assumes "atMostOne w"
  shows "atMostOne (resume k w)"
proof (cases "k < length (suspended w)")
  case True
  let ?w = "w\<lparr>suspended := take k (suspended w) @ drop (Suc k) (suspended w)\<rparr>"
  from filter_without_nth [OF True, of "\<lambda>s. \<not> isBlockWait s"] assms
  have "length (listeners (sub ?w)) + registrationsPending ?w
      + (if isBlockWait (suspended w ! k) then 0 else 1) \<le> 1"
    by (auto simp: atMostOne_def registrationsPending_def split: if_splits)
  from atMostOne_continue [OF this] True show ?thesis by (simp add: resume_def)
next
  case False
  with assms show ?thesis by (simp add: resume_def)
qed

lemma atMostOne_on:
  assumes "atMostOne w"
    and "registersConfirmation (On trigger callback) \<Longrightarrow> registrationsPending w = 0"
  shows "atMostOne (snd (on trigger callback w))"
  using assms
  by (cases callback)
     (auto simp: on_def on_body_def triggers_def addErrorListener_def addListener_def
        atMostOne_def registrationsPending_def hasListener_def observe_def)

lemma sequential_use_keeps_one:
  assumes "atMostOne w"
    and "registersConfirmation a \<Longrightarrow> registrationsPending w = 0"
  shows "atMostOne (step a w)"
  using assms
  by (cases a)
     (simp_all add: atMostOne_on atMostOne_removeListener removeAllListeners_def off_def
        unsubscribe_def atMostOne_resume atMostOne_fireTimer atMostOne_emit
        del: registersConfirmation.simps)

lemma atMostOne_new_world: "atMostOne (new_world (new_TransactionSubscription p) pr)"
  by (simp add: atMostOne_def registrationsPending_def new_world_def new_TransactionSubscription_def)

subsection \<open>Two registrations at a time break it\<close>

text \<open>
  C7, at the input where the code leaves it: two calls of \<^verbatim>\<open>on("confirmation", ...)\<close>
  in a row on a new subscription. Both pass the guard of line 84, as neither has pushed
  yet when the other is checked; each then pushes its entry after its two
  \<^verbatim>\<open>await\<close>s. The subscription holds two listeners, both registered on the provider,
  no error has been raised, and it is still listening after one \<^verbatim>\<open>removeListener\<close>.
  It is the same when the second call comes after the promise of the first \<^verbatim>\<open>on\<close> has
  been fulfilled and the first registration already waits for its receipt lookup.
\<close>

theorem two_registrations_in_a_row:
  "listeners (sub (run [On ''confirmation'' (Function (Fn 1 quiet)),
       On ''confirmation'' (Function (Fn 2 quiet)),
       Resume 0, Resume 0, Resume 0, Resume 0] freshWorld)) =
     [(''0xabc'', EmitterFunction 0 (Fn 1 quiet)), (''0xabc'', EmitterFunction (Suc 0) (Fn 2 quiet))]
   \<and> events (prov (run [On ''confirmation'' (Function (Fn 1 quiet)),
       On ''confirmation'' (Function (Fn 2 quiet)),
       Resume 0, Resume 0, Resume 0, Resume 0] freshWorld)) =
     [(''0xabc'', EmitterFunction 0 (Fn 1 quiet)), (''0xabc'', EmitterFunction (Suc 0) (Fn 2 quiet))]
   \<and> trace (run [On ''confirmation'' (Function (Fn 1 quiet)),
       On ''confirmation'' (Function (Fn 2 quiet)),
       Resume 0, Resume 0, Resume 0, Resume 0] freshWorld) = []
   \<and> hasListener (sub (run [On ''confirmation'' (Function (Fn 1 quiet)),
       On ''confirmation'' (Function (Fn 2 quiet)),
       Resume 0, Resume 0, Resume 0, Resume 0, RemoveListener] freshWorld))
   \<and> fst (on ''confirmation'' (Function (Fn 1 quiet)) freshWorld) = Returned (Fulfilled ())
   \<and> listeners (sub (run [On ''confirmation'' (Function (Fn 1 quiet)), Resume 0,
       On ''confirmation'' (Function (Fn 2 quiet)),
       Resume (Suc 0), Resume 0, Resume 0] freshWorld)) =
     [(''0xabc'', EmitterFunction 0 (Fn 1 quiet)), (''0xabc'', EmitterFunction (Suc 0) (Fn 2 quiet))]
   \<and> \<not> atMostOne (run [On ''confirmation'' (Function (Fn 1 quiet)),
       On ''confirmation'' (Function (Fn 2 quiet))] freshWorld)"
  by (simp add: freshWorld_eq subscription_defs noReceipt_def exampleTx_def atMostOne_def
      registrationsPending_def)

section \<open>The timeout\<close>

lemma timeoutCallback_trace:
  "trace (timeoutCallback w) = trace w @
     (case errorListener (sub w) of
        None \<Rightarrow> []
      | Some h \<Rightarrow> Invoked h (Failure timeoutError) #
          (case fn_body h (Failure timeoutError) of
             Normal \<Rightarrow> []
           | ThrowsSync e \<Rightarrow> [UncaughtException e]
           | RejectsAsync e \<Rightarrow> [UnhandledRejection e]))"
  by (simp add: timeoutCallback_def emitErrorEvent_def removeListener_def observe_def Let_def
      split: option.splits outcome.splits)

lemma timeoutCallback_sub: "sub (timeoutCallback w) = sub (removeListener w)"
  by (simp add: timeoutCallback_def emitErrorEvent_def observe_def Let_def
      split: option.splits outcome.splits)

lemma timeoutCallback_prov: "prov (timeoutCallback w) = prov (removeListener w)"
  by (simp add: timeoutCallback_def emitErrorEvent_def observe_def Let_def
      split: option.splits outcome.splits)

lemma timeoutCallback_timers: "timers (timeoutCallback w) = timers w"
  by (simp add: timeoutCallback_def emitErrorEvent_def observe_def Let_def removeListener_def
      split: option.splits outcome.splits)

text \<open>
  C5. A subscription holds its confirmation listener \<open>(k, fn)\<close> and a timer is pending.
  When the timer expires, the subscription holds no listener (\<^verbatim>\<open>hasListener()\<close> is
  false), the provider has lost the registration of \<open>fn\<close> under \<open>k\<close>, and the failure
  handler, if there is one, has been called with the error "Listener removed after reached
  timeout" (and with nothing when there is none). The delay of the timer is the
  \<^verbatim>\<open>#timeout\<close> of the subscription, 2000 for every subscription the class constructs.
\<close>

theorem timeout_retires_listener:
  "(listeners (sub w) = [(k, fn)] \<and> timers w = d # ds \<longrightarrow>
      \<not> hasListener (sub (fireTimer w))
      \<and> events (prov (fireTimer w)) = remove1 (k, fn) (events (prov w))
      \<and> (distinct (events (prov w)) \<longrightarrow> (k, fn) \<notin> set (events (prov (fireTimer w))))
      \<and> (errorListener (sub w) = None \<longrightarrow> trace (fireTimer w) = trace w)
      \<and> (\<forall>h. errorListener (sub w) = Some h \<longrightarrow>
            trace (fireTimer w) = trace w @ Invoked h (Failure timeoutError) #
              (case fn_body h (Failure timeoutError) of
                 Normal \<Rightarrow> []
               | ThrowsSync e \<Rightarrow> [UncaughtException e]
               | RejectsAsync e \<Rightarrow> [UnhandledRejection e])))
   \<and> kindOf timeoutError = Some Timeout
   \<and> timeout (new_TransactionSubscription p) = 2000
   \<and> timers (snd (addListener_afterReceipt lid cb hs w)) =
       (case fst (addListener_afterReceipt lid cb hs w) of
          Fulfilled u \<Rightarrow> timers w @ [timeout (sub w)]
        | Pending \<Rightarrow> timers w
        | Rejected e \<Rightarrow> timers w)"
proof (intro conjI impI allI)
  show "kindOf timeoutError = Some Timeout" by (rule kindOf_timeoutError)
  show "timeout (new_TransactionSubscription p) = 2000"
    by (simp add: new_TransactionSubscription_def)
  show "timers (snd (addListener_afterReceipt lid cb hs w)) =
       (case fst (addListener_afterReceipt lid cb hs w) of
          Fulfilled u \<Rightarrow> timers w @ [timeout (sub w)]
        | Pending \<Rightarrow> timers w
        | Rejected e \<Rightarrow> timers w)"
    by (simp add: addListener_afterReceipt_def Let_def provider_on_def
        split: sum.splits option.splits)
next
  assume a: "listeners (sub w) = [(k, fn)] \<and> timers w = d # ds"
  then have ft: "fireTimer w = timeoutCallback (w\<lparr>timers := ds\<rparr>)"
    by (simp add: fireTimer_def)
  from a show "\<not> hasListener (sub (fireTimer w))"
    by (simp add: ft timeoutCallback_sub removeListener_def hasListener_def Let_def)
  from a show ev: "events (prov (fireTimer w)) = remove1 (k, fn) (events (prov w))"
    by (simp add: ft timeoutCallback_prov removeListener_def hasListener_def Let_def
        provider_removeListener_def)
  { assume "distinct (events (prov w))"
    then show "(k, fn) \<notin> set (events (prov (fireTimer w)))"
      by (simp add: ev) }
  { assume "errorListener (sub w) = None"
    then show "trace (fireTimer w) = trace w"
      by (simp add: ft timeoutCallback_trace) }
  { fix h assume "errorListener (sub w) = Some h"
    then show "trace (fireTimer w) = trace w @ Invoked h (Failure timeoutError) #
              (case fn_body h (Failure timeoutError) of
                 Normal \<Rightarrow> []
               | ThrowsSync e \<Rightarrow> [UncaughtException e]
               | RejectsAsync e \<Rightarrow> [UnhandledRejection e])"
      by (simp add: ft timeoutCallback_trace) }
qed

text \<open>With a failure handler (the watched example) and without one (the listening one).\<close>

theorem timeout_retires_listener_witness:
  "listeners (sub watchedWorld) = [(''0xabc'', EmitterFunction 0 (Fn 1 quiet))]
   \<and> timers watchedWorld = [2000]
   \<and> distinct (events (prov watchedWorld))
   \<and> errorListener (sub watchedWorld) = Some (Fn 9 quiet)
   \<and> \<not> hasListener (sub (fireTimer watchedWorld))
   \<and> events (prov (fireTimer watchedWorld)) = []
   \<and> trace (fireTimer watchedWorld) = [Invoked (Fn 9 quiet) (Failure timeoutError)]
   \<and> errorListener (sub listeningWorld) = None
   \<and> \<not> hasListener (sub (fireTimer listeningWorld))
   \<and> trace (fireTimer listeningWorld) = []"
  using timeout_retires_listener [where w = watchedWorld and k = "''0xabc''"
      and fn = "EmitterFunction 0 (Fn 1 quiet)" and d = 2000 and ds = "[]"]
    timeout_retires_listener [where w = listeningWorld and k = "''0xabc''"
      and fn = "EmitterFunction 0 (Fn 1 quiet)" and d = 2000 and ds = "[]"]
  by (simp add: watchedWorld_eq listeningWorld_eq quiet_def)

section \<open>A callback that throws\<close>

lemma show_nat_digit: "n < 10 \<Longrightarrow> show_nat n = [''0123456789'' ! n]"
  by simp

lemma messageText_unreadable:
  "(\<exists>te. messageText e = Inl te) \<longleftrightarrow> e = NonError JNull \<or> e = NonError JUndefined"
proof (cases e)
  case (NonError v)
  then show ?thesis by (cases v) simp_all
qed simp_all

lemma emitterFunction_throwing:
  assumes "fn_body cb (Message (confirmations rc)) = ThrowsSync e
         \<or> fn_body cb (Message (confirmations rc)) = RejectsAsync e"
  shows "emitterFunction cb (Some rc) w =
           emitterCatch e (observe (Invoked cb (Message (confirmations rc))) w)"
  using assms by (auto simp: emitterFunction_def Let_def)

lemma emitterCatch_unreadable:
  "messageText e = Inl te \<Longrightarrow> emitterCatch e w = (Rejected te, w)"
  by (simp add: emitterCatch_def)

lemma emitterCatch_None:
  "messageText e = Inr m \<Longrightarrow> errorListener (sub w) = None \<Longrightarrow>
   emitterCatch e w = (Fulfilled (), w)"
  by (simp add: emitterCatch_def emitErrorEvent_def)

lemma emitterCatch_Some:
  "messageText e = Inr m \<Longrightarrow> errorListener (sub w) = Some h \<Longrightarrow>
   emitterCatch e w =
     (case fn_body h (Failure (callbackError m)) of
        Normal \<Rightarrow> (Fulfilled (), observe (Invoked h (Failure (callbackError m))) w)
      | ThrowsSync x \<Rightarrow> (Rejected x, observe (Invoked h (Failure (callbackError m))) w)
      | RejectsAsync x \<Rightarrow> (Fulfilled (),
          observe (UnhandledRejection x) (observe (Invoked h (Failure (callbackError m))) w)))"
  by (simp add: emitterCatch_def emitErrorEvent_def Let_def split: outcome.splits)

text \<open>
  What holds when the callback throws, or rejects with, a value \<open>e\<close> whose
  \<^verbatim>\<open>message\<close> can be read (every value but \<^verbatim>\<open>null\<close> and \<^verbatim>\<open>undefined\<close>), \<open>m\<close>
  being its text. Without a failure handler nothing else happens. With a failure handler
  \<open>h\<close>, \<open>h\<close> is called next with the error "Callback function with error: " followed by
  \<open>m\<close>, and the promise of \<^verbatim>\<open>emitterFunction\<close> rejects only with what \<open>h\<close> itself
  throws.
\<close>

lemma readable_error_reaches_handler:
  assumes "fn_body cb (Message (confirmations rc)) = ThrowsSync e
         \<or> fn_body cb (Message (confirmations rc)) = RejectsAsync e"
    and "messageText e = Inr m"
  shows "(errorListener (sub w) = None \<longrightarrow>
            emitterFunction cb (Some rc) w =
              (Fulfilled (), observe (Invoked cb (Message (confirmations rc))) w))
       \<and> (\<forall>h. errorListener (sub w) = Some h \<and> fn_body h (Failure (callbackError m)) = Normal \<longrightarrow>
            emitterFunction cb (Some rc) w =
              (Fulfilled (), observe (Invoked h (Failure (callbackError m)))
                (observe (Invoked cb (Message (confirmations rc))) w)))
       \<and> (\<forall>h. errorListener (sub w) = Some h \<longrightarrow>
            take (Suc (Suc (length (trace w)))) (trace (snd (emitterFunction cb (Some rc) w))) =
              trace w @ [Invoked cb (Message (confirmations rc)),
                         Invoked h (Failure (callbackError m))]
          \<and> (\<forall>x. fst (emitterFunction cb (Some rc) w) = Rejected x \<longrightarrow>
                 fn_body h (Failure (callbackError m)) = ThrowsSync x))
       \<and> kindOf (callbackError m) = Some CallbackFailure"
proof (intro conjI impI allI)
  show "kindOf (callbackError m) = Some CallbackFailure" by (rule kindOf_callbackError)
next
  assume "errorListener (sub w) = None"
  then show "emitterFunction cb (Some rc) w =
              (Fulfilled (), observe (Invoked cb (Message (confirmations rc))) w)"
    by (simp add: emitterFunction_throwing [OF assms(1)] emitterCatch_None [OF assms(2)]
        observe_def)
next
  fix h
  assume "errorListener (sub w) = Some h \<and> fn_body h (Failure (callbackError m)) = Normal"
  then show "emitterFunction cb (Some rc) w =
              (Fulfilled (), observe (Invoked h (Failure (callbackError m)))
                (observe (Invoked cb (Message (confirmations rc))) w))"
    by (simp add: emitterFunction_throwing [OF assms(1)] emitterCatch_Some [OF assms(2)]
        observe_def)
next
  fix h
  assume s: "errorListener (sub w) = Some h"
  then show "take (Suc (Suc (length (trace w)))) (trace (snd (emitterFunction cb (Some rc) w))) =
              trace w @ [Invoked cb (Message (confirmations rc)),
                         Invoked h (Failure (callbackError m))]"
    by (simp add: emitterFunction_throwing [OF assms(1)] emitterCatch_Some [OF assms(2)]
        observe_def split: outcome.splits)
  fix x
  assume "fst (emitterFunction cb (Some rc) w) = Rejected x"
  with s show "fn_body h (Failure (callbackError m)) = ThrowsSync x"
    by (simp add: emitterFunction_throwing [OF assms(1)] emitterCatch_Some [OF assms(2)]
        observe_def split: outcome.splits)
qed

text \<open>A callback that throws an error object, and one that throws a string, delivered a
  receipt in the watched example (which has a failure handler) and in the listening one
  (which has none).\<close>

lemma readable_error_examples:
  "trace (call_listener (EmitterFunction 5 (Fn 2 failing)) (Some \<lparr>confirmations = 1\<rparr>)
        watchedWorld) =
       [Invoked (Fn 2 failing) (Message 1),
        Invoked (Fn 9 quiet) (Failure (Error ''Callback function with error: boom''))]
   \<and> trace (call_listener (EmitterFunction 5 (Fn 2 failing)) (Some \<lparr>confirmations = 1\<rparr>)
        listeningWorld) = [Invoked (Fn 2 failing) (Message 1)]
   \<and> trace (call_listener (EmitterFunction 5 (Fn 4 throwsText)) (Some \<lparr>confirmations = 1\<rparr>)
        watchedWorld) =
       [Invoked (Fn 4 throwsText) (Message 1),
        Invoked (Fn 9 quiet) (Failure (Error ''Callback function with error: undefined''))]"
  by (simp add: watchedWorld_eq listeningWorld_eq emitterFunction_def emitterCatch_def
      emitErrorEvent_def observe_def callbackError_def quiet_def failing_def throwsText_def)

text \<open>
  C6, at the inputs where the code leaves it: a confirmation callback that throws
  \<^verbatim>\<open>null\<close>, and an async one whose promise rejects with \<^verbatim>\<open>undefined\<close>, delivered a
  receipt on a subscription that has a failure handler. The \<^verbatim>\<open>catch\<close> block reads
  \<^verbatim>\<open>error.message\<close> of the caught value, which throws a \<^verbatim>\<open>TypeError\<close>: the failure
  handler is not called, the promise of \<^verbatim>\<open>emitterFunction\<close> rejects with the
  \<^verbatim>\<open>TypeError\<close>, and the listener call leaves behind the call of the callback and an
  unhandled rejection.
\<close>

theorem callback_throwing_null:
  "errorListener (sub watchedWorld) = Some (Fn 9 quiet)
   \<and> fn_body (Fn 3 throwsNull) (Message 1) = ThrowsSync (NonError JNull)
   \<and> emitterFunction (Fn 3 throwsNull) (Some \<lparr>confirmations = 1\<rparr>) watchedWorld =
       (Rejected (TypeError ''Cannot read property of null''),
        observe (Invoked (Fn 3 throwsNull) (Message 1)) watchedWorld)
   \<and> trace (call_listener (EmitterFunction 5 (Fn 3 throwsNull)) (Some \<lparr>confirmations = 1\<rparr>)
        watchedWorld) =
       [Invoked (Fn 3 throwsNull) (Message 1),
        UnhandledRejection (TypeError ''Cannot read property of null'')]
   \<and> fn_body (Fn 6 rejectsUndefined) (Message 1) = RejectsAsync (NonError JUndefined)
   \<and> trace (call_listener (EmitterFunction 5 (Fn 6 rejectsUndefined))
        (Some \<lparr>confirmations = 1\<rparr>) watchedWorld) =
       [Invoked (Fn 6 rejectsUndefined) (Message 1),
        UnhandledRejection (TypeError ''Cannot read property of undefined'')]
   \<and> trace (continue (AwaitBlockReceipt (Fn 3 throwsNull) ''0xabc'')
        (watchedWorld\<lparr>prov := (prov watchedWorld)\<lparr>getTransactionReceipt := minedReceipt\<rparr>\<rparr>)) =
       [Invoked (Fn 3 throwsNull) (Message 1),
        UnhandledRejection (TypeError ''Cannot read property of null'')]"
  by (simp add: watchedWorld_eq emitterFunction_def emitterCatch_def emitErrorEvent_def
      observe_def throwsNull_def rejectsUndefined_def blockListener_afterReceipt_def
      minedReceipt_def)

section \<open>The timer is never cancelled\<close>

lemma discard_timers: "timers (discard pw) = timers (snd pw)"
  by (cases pw rule: discard.cases) (simp_all add: observe_def)

lemma emitterFunction_timers: "timers (snd (emitterFunction cb r w)) = timers w"
  by (simp add: emitterFunction_def emitterCatch_def emitErrorEvent_def observe_def Let_def
      split: option.splits outcome.splits sum.splits)

lemma removeListener_timers: "timers (removeListener w) = timers w"
  by (simp add: removeListener_def Let_def)

lemma call_listener_timers: "timers (call_listener fn payload w) = timers w"
  by (cases fn)
     (simp_all add: discard_timers emitterFunction_timers blockListener_def split: option.splits)

lemma emit_timers: "timers (emit k payload w) = timers w"
  unfolding emit_def
  by (rule fold_invariant [where Q = "\<lambda>x. True" and P = "\<lambda>v. timers v = timers w"])
     (simp_all add: call_listener_timers)

lemma on_timers: "timers (snd (on trigger callback w)) = timers w"
  by (simp add: on_def on_body_def addErrorListener_def addListener_def observe_def
      split: callback_arg.splits)

lemma continue_timers: "\<exists>ts. timers (continue t w) = timers w @ ts"
  by (cases t)
     (simp_all add: discard_timers addListener_afterTx_def addListener_afterReceipt_def
        blockListener_afterReceipt_def emitterFunction_timers provider_on_def Let_def
        split: tx_promise.splits sum.splits option.splits)

lemma resume_timers: "\<exists>ts. timers (resume k w) = timers w @ ts"
proof (cases "k < length (suspended w)")
  case True
  from continue_timers [of "suspended w ! k" "w\<lparr>suspended := take k (suspended w) @ drop (Suc k) (suspended w)\<rparr>"]
  show ?thesis using True by (simp add: resume_def)
next
  case False
  then show ?thesis by (simp add: resume_def)
qed

lemma step_timers: "a \<noteq> FireTimer \<Longrightarrow> \<exists>ts. timers (step a w) = timers w @ ts"
  by (cases a)
     (simp_all add: on_timers removeListener_timers removeAllListeners_def off_def
        unsubscribe_def resume_timers emit_timers)

text \<open>
  C10. Nothing but its own expiry takes a timer away: every other step leaves the pending
  timers in place, in order (a completed registration adds its timer at the end). When a
  timer expires it is gone, and the failure handler, if one is registered, is called with
  the timeout error whatever the listeners are. So after a registration whose listener
  the holder removes before the timeout, the expiry still calls the failure handler.
\<close>

theorem timer_never_cancelled:
  "(a \<noteq> FireTimer \<longrightarrow> (\<exists>ts. timers (step a w) = timers w @ ts))
   \<and> (timers w = d # ds \<longrightarrow> timers (step FireTimer w) = ds)
   \<and> (\<forall>h. timers w = d # ds \<and> errorListener (sub w) = Some h \<longrightarrow>
         (\<exists>rest. trace (step FireTimer w) = trace w @ Invoked h (Failure timeoutError) # rest))
   \<and> (\<forall>h t r. \<not> hasListener (sub w) \<and> txPromise (sub w) = Resolves t
         \<and> getTransactionReceipt (prov w) (hash t) = Inr r
         \<and> timers w = [] \<and> errorListener (sub w) = Some h \<longrightarrow>
         timers (run [On ''confirmation'' (Function cb), Resume (length (suspended w)),
           Resume (length (suspended w)), RemoveListener] w) = [timeout (sub w)]
         \<and> \<not> hasListener (sub (run [On ''confirmation'' (Function cb), Resume (length (suspended w)),
           Resume (length (suspended w)), RemoveListener] w))
         \<and> (\<exists>rest. trace (run [On ''confirmation'' (Function cb), Resume (length (suspended w)),
              Resume (length (suspended w)), RemoveListener, FireTimer] w) =
              trace w @ Invoked h (Failure timeoutError) # rest))"
proof (intro conjI impI allI)
  assume "a \<noteq> FireTimer"
  then show "\<exists>ts. timers (step a w) = timers w @ ts" by (rule step_timers)
next
  assume "timers w = d # ds"
  then show "timers (step FireTimer w) = ds"
    by (simp add: fireTimer_def timeoutCallback_timers)
next
  fix h
  assume "timers w = d # ds \<and> errorListener (sub w) = Some h"
  then show "\<exists>rest. trace (step FireTimer w) = trace w @ Invoked h (Failure timeoutError) # rest"
    by (simp add: fireTimer_def timeoutCallback_trace)
next
  fix h t r
  assume a: "\<not> hasListener (sub w) \<and> txPromise (sub w) = Resolves t
         \<and> getTransactionReceipt (prov w) (hash t) = Inr r
         \<and> timers w = [] \<and> errorListener (sub w) = Some h"
  let ?reg = "run [On ''confirmation'' (Function cb), Resume (length (suspended w)),
           Resume (length (suspended w))] w"
  from a have e: "listeners (sub w) = []" by (simp add: hasListener_def)
  from a have reg: "?reg =
     (let entry = (if r \<noteq> None then (''block'', BlockListener (next_id w) cb)
                   else (hash t, EmitterFunction (next_id w) cb))
      in w\<lparr>sub := (sub w)\<lparr>tx := Some t, listeners := listeners (sub w) @ [entry]\<rparr>,
           prov := (prov w)\<lparr>events := events (prov w) @ [entry]\<rparr>,
           timers := timers w @ [timeout (sub w)],
           next_id := Suc (next_id w)\<rparr>)"
    by (intro register_run) simp_all
  have r1: "run [On ''confirmation'' (Function cb), Resume (length (suspended w)),
           Resume (length (suspended w)), RemoveListener] w = removeListener ?reg"
    by (simp add: run_def)
  have r2: "run [On ''confirmation'' (Function cb), Resume (length (suspended w)),
           Resume (length (suspended w)), RemoveListener, FireTimer] w =
           fireTimer (removeListener ?reg)"
    by (simp add: run_def)
  from a show t1: "timers (run [On ''confirmation'' (Function cb), Resume (length (suspended w)),
           Resume (length (suspended w)), RemoveListener] w) = [timeout (sub w)]"
    unfolding r1 by (simp add: removeListener_timers reg Let_def)
  show "\<not> hasListener (sub (run [On ''confirmation'' (Function cb), Resume (length (suspended w)),
           Resume (length (suspended w)), RemoveListener] w))"
    unfolding r1 by (simp add: reg e Let_def removeListener_def hasListener_def)
  have el: "errorListener (sub (removeListener ?reg)) = Some h"
    using a by (simp add: reg e Let_def removeListener_def hasListener_def)
  have tr: "trace (removeListener ?reg) = trace w"
    by (simp add: reg e Let_def removeListener_def hasListener_def)
  from t1 have tm: "timers (removeListener ?reg) = [timeout (sub w)]" unfolding r1 .
  show "\<exists>rest. trace (run [On ''confirmation'' (Function cb), Resume (length (suspended w)),
              Resume (length (suspended w)), RemoveListener, FireTimer] w) =
              trace w @ Invoked h (Failure timeoutError) # rest"
    unfolding r2 using el tr tm
    by (simp add: fireTimer_def timeoutCallback_trace)
qed

text \<open>The watched example: the holder removes the listener, then the timer expires.\<close>

theorem timer_never_cancelled_witness:
  "timers watchedWorld = [2000]
   \<and> errorListener (sub watchedWorld) = Some (Fn 9 quiet)
   \<and> timers (step RemoveListener watchedWorld) = [2000]
   \<and> \<not> hasListener (sub (step RemoveListener watchedWorld))
   \<and> timers (step FireTimer (step RemoveListener watchedWorld)) = []
   \<and> trace (step FireTimer (step RemoveListener watchedWorld)) =
       [Invoked (Fn 9 quiet) (Failure timeoutError)]
   \<and> \<not> hasListener (sub handledWorld) \<and> txPromise (sub handledWorld) = Resolves exampleTx
   \<and> getTransactionReceipt (prov handledWorld) (hash exampleTx) = Inr None
   \<and> timers handledWorld = [] \<and> errorListener (sub handledWorld) = Some (Fn 9 quiet)
   \<and> timers (run [On ''confirmation'' (Function (Fn 1 quiet)), Resume 0, Resume 0,
        RemoveListener] handledWorld) = [2000]
   \<and> trace (run [On ''confirmation'' (Function (Fn 1 quiet)), Resume 0, Resume 0,
        RemoveListener, FireTimer] handledWorld) = [Invoked (Fn 9 quiet) (Failure timeoutError)]"
  using timer_never_cancelled [where a = RemoveListener and w = watchedWorld and d = 2000
      and ds = "[]"]
    timer_never_cancelled [where a = FireTimer and w = "step RemoveListener watchedWorld"
      and d = 2000 and ds = "[]"]
    timer_never_cancelled [where a = FireTimer and w = handledWorld and cb = "Fn 1 quiet"]
  by (simp add: watchedWorld_eq handledWorld_eq subscription_defs quiet_def noReceipt_def
      exampleTx_def)

section \<open>The bound methods\<close>

subsection \<open>Nothing listens before a confirmation listener is registered\<close>

lemma unregistered_call_listener:
  "unregistered w \<Longrightarrow> unregistered (call_listener fn payload w)"
  by (cases fn)
     (simp_all add: unregistered_def discard_sub discard_suspended emitterFunction_sub
        emitterFunction_suspended blockListener_def split: option.splits)

lemma unregistered_emit: "unregistered w \<Longrightarrow> unregistered (emit k payload w)"
  unfolding emit_def
  by (rule fold_invariant [where Q = "\<lambda>x. True" and P = unregistered])
     (simp_all add: unregistered_call_listener)

lemma unregistered_removeListener: "unregistered w \<Longrightarrow> removeListener w = w"
  by (simp add: unregistered_def removeListener_def hasListener_def)

lemma unregistered_timeoutCallback: "unregistered w \<Longrightarrow> unregistered (timeoutCallback w)"
  by (simp add: unregistered_def timeoutCallback_def removeListener_def hasListener_def
      emitErrorEvent_def observe_def Let_def split: option.splits outcome.splits)

lemma unregistered_fireTimer:
  assumes "unregistered w"
  shows "unregistered (fireTimer w)"
proof (cases "timers w")
  case Nil
  with assms show ?thesis by (simp add: fireTimer_def)
next
  case (Cons d ds)
  from assms have "unregistered (w\<lparr>timers := ds\<rparr>)" by (simp add: unregistered_def)
  then show ?thesis
    using Cons by (simp add: fireTimer_def unregistered_timeoutCallback)
qed

lemma unregistered_continue:
  "isBlockWait t \<Longrightarrow> unregistered w \<Longrightarrow> unregistered (continue t w)"
  by (cases t)
     (simp_all add: unregistered_def discard_sub discard_suspended blockListener_afterReceipt_def
        emitterFunction_sub emitterFunction_suspended split: sum.splits)

lemma unregistered_resume:
  assumes "unregistered w"
  shows "unregistered (resume k w)"
proof (cases "k < length (suspended w)")
  case True
  from assms have all: "list_all isBlockWait (suspended w)" by (simp add: unregistered_def)
  with True have b: "isBlockWait (suspended w ! k)" by (simp add: list_all_length)
  from all have "list_all isBlockWait (take k (suspended w) @ drop (Suc k) (suspended w))"
    by (auto simp: list_all_iff dest: in_set_takeD in_set_dropD)
  with assms have "unregistered (w\<lparr>suspended := take k (suspended w) @ drop (Suc k) (suspended w)\<rparr>)"
    by (simp add: unregistered_def)
  from unregistered_continue [OF b this] True show ?thesis by (simp add: resume_def)
next
  case False
  with assms show ?thesis by (simp add: resume_def)
qed

lemma unregistered_on:
  "\<not> registersConfirmation (On trigger callback) \<Longrightarrow> unregistered w \<Longrightarrow>
   unregistered (snd (on trigger callback w))"
  by (cases callback)
     (auto simp: on_def on_body_def triggers_def addErrorListener_def unregistered_def)

lemma unregistered_step:
  "\<not> registersConfirmation a \<Longrightarrow> unregistered w \<Longrightarrow> unregistered (step a w)"
  by (cases a)
     (simp_all add: unregistered_on unregistered_removeListener removeAllListeners_def off_def
        unsubscribe_def unregistered_resume unregistered_fireTimer unregistered_emit
        del: registersConfirmation.simps)

lemma unregistered_run:
  "\<forall>a \<in> set as. \<not> registersConfirmation a \<Longrightarrow> unregistered w \<Longrightarrow> unregistered (run as w)"
  unfolding run_def
  by (induction as arbitrary: w) (simp_all add: unregistered_step)

subsection \<open>What the constructor builds\<close>

lemma new_Contract_result:
  "new_Contract b a d wl =
     (if \<not> isAddress a \<or> \<not> isABI d then ([ProviderCreated], Inl invalidContractError)
      else if truthy wl \<and> \<not> isEthersJsSigner wl then ([ProviderCreated], Inl invalidWalletError)
      else (ProviderCreated # (if truthy wl then [SignerConnected] else []) @ [ContractBound],
            Inr \<lparr>c_provider = getDefaultProvider b,
                 c_contract = \<lparr>address = a, abi = entries_of d,
                    signer = (if truthy wl then wl else JNull), remote = b\<rparr>,
                 methods = addFunctionsToContract (entries_of d) Map.empty\<rparr>))"
  by (simp add: new_Contract_def initializeContract_def Let_def)

lemma isAddress_exampleAddress: "isAddress exampleAddress"
  by (simp add: exampleAddress_def matchesAddressPattern_def isHexDigit_def)

lemma isABI_iff: "isABI d \<longleftrightarrow> (\<exists>xs. d = JArr xs)"
  by (cases d) (simp_all add: isABI_def)

lemma isAddress_iff:
  "isAddress a \<longleftrightarrow> (\<exists>s. a = JStr s \<and> length s = 42 \<and> take 2 s = ''0x''
      \<and> list_all isHexDigit (drop 2 s))"
  by (cases a) (simp_all add: matchesAddressPattern_def)

lemma new_Contract_signer:
  "snd (new_Contract b a d wl) = Inr c \<Longrightarrow>
   isEthersJsSigner (signer (c_contract c)) = truthy wl"
  by (auto simp: new_Contract_result isEthersJsSigner_def split: if_splits)

lemma new_Contract_readOnly:
  "new_Contract exampleBackend exampleAddress exampleABI JUndefined =
     ([ProviderCreated, ContractBound], Inr readOnlyContract)"
  by (simp add: new_Contract_result isAddress_exampleAddress isABI_iff exampleABI_def
      readOnlyContract_def)

lemma new_Contract_signing:
  "new_Contract exampleBackend exampleAddress exampleABI exampleWallet =
     ([ProviderCreated, SignerConnected, ContractBound], Inr signingContract)"
  by (simp add: new_Contract_result isAddress_exampleAddress isABI_iff exampleABI_def
      signingContract_def exampleWallet_def isEthersJsSigner_def)

lemma example_methods:
  "addFunctionsToContract [valueEntry, setValueEntry] Map.empty ''getValue'' =
     Some (ReadFunction valueEntry)"
  "addFunctionsToContract [valueEntry, setValueEntry] Map.empty ''setValue'' =
     Some (WriteFunction setValueEntry)"
  by (simp_all add: addFunctionsToContract_def isFunctionEntry_def isWrite_def
      attachReadFunction_def attachWriteFunction_def valueEntry_def setValueEntry_def)

subsection \<open>Write methods\<close>

text \<open>
  C2. A member bound as a write method: called on a contract whose \<^verbatim>\<open>signer\<close> is not a
  signer it throws "Cannot write data to a Contract without a wallet"; otherwise it
  returns, as the value of the call itself, a new subscription on the pending handle of
  the submitted call. A contract built by the constructor has a signer exactly when it was
  given a wallet. A new subscription holds no listener, and whatever is done with it (calls
  of its interface, turns of the event loop) it holds none as long as no
  \<^verbatim>\<open>on("confirmation", f)\<close> with a function \<open>f\<close> is among the calls.
\<close>

theorem write_method:
  assumes "methods c nm = Some (WriteFunction f)"
  shows "(\<not> isEthersJsSigner (signer (c_contract c)) \<longrightarrow>
            invoke c nm args = Threw missingWalletError)
       \<and> kindOf missingWalletError = Some MissingSigner
       \<and> (isEthersJsSigner (signer (c_contract c)) \<longrightarrow>
            invoke c nm args = Returned (WriteResult (new_TransactionSubscription
              (send (remote (c_contract c)) (entry_name f) args))))
       \<and> (snd (new_Contract b a d wl) = Inr c \<longrightarrow>
            isEthersJsSigner (signer (c_contract c)) = truthy wl)
       \<and> \<not> hasListener (new_TransactionSubscription p)
       \<and> ((\<forall>x \<in> set as. \<not> registersConfirmation x) \<longrightarrow>
            \<not> hasListener (sub (run as (new_world (new_TransactionSubscription p) pr))))"
proof (intro conjI impI)
  show "kindOf missingWalletError = Some MissingSigner" by (rule kindOf_missingWalletError)
  show "\<not> hasListener (new_TransactionSubscription p)"
    by (simp add: hasListener_def new_TransactionSubscription_def)
next
  assume "\<not> isEthersJsSigner (signer (c_contract c))"
  with assms show "invoke c nm args = Threw missingWalletError"
    by (simp add: invoke_def writeFunction_def)
next
  assume "isEthersJsSigner (signer (c_contract c))"
  with assms show "invoke c nm args = Returned (WriteResult (new_TransactionSubscription
              (send (remote (c_contract c)) (entry_name f) args)))"
    by (simp add: invoke_def writeFunction_def)
next
  assume "snd (new_Contract b a d wl) = Inr c"
  then show "isEthersJsSigner (signer (c_contract c)) = truthy wl"
    by (rule new_Contract_signer)
next
  assume a: "\<forall>x \<in> set as. \<not> registersConfirmation x"
  have "unregistered (new_world (new_TransactionSubscription p) pr)"
    by (simp add: unregistered_def new_world_def new_TransactionSubscription_def)
  from unregistered_run [OF a this]
  show "\<not> hasListener (sub (run as (new_world (new_TransactionSubscription p) pr)))"
    by (simp add: unregistered_def hasListener_def)
qed

text \<open>\<^verbatim>\<open>setValue("x")\<close> on the example contract, built without and with a wallet.\<close>

theorem write_method_witness:
  "methods readOnlyContract ''setValue'' = Some (WriteFunction setValueEntry)
   \<and> methods signingContract ''setValue'' = Some (WriteFunction setValueEntry)
   \<and> snd (new_Contract exampleBackend exampleAddress exampleABI JUndefined) = Inr readOnlyContract
   \<and> snd (new_Contract exampleBackend exampleAddress exampleABI exampleWallet) = Inr signingContract
   \<and> \<not> isEthersJsSigner (signer (c_contract readOnlyContract))
   \<and> isEthersJsSigner (signer (c_contract signingContract))
   \<and> list_all (\<lambda>x. \<not> registersConfirmation x)
        [On ''failed'' (Function (Fn 9 quiet)), RemoveListener, Emit ''block'' None, FireTimer]
   \<and> invoke readOnlyContract ''setValue'' [JStr ''x''] = Threw missingWalletError
   \<and> invoke signingContract ''setValue'' [JStr ''x''] =
       Returned (WriteResult (new_TransactionSubscription (Resolves exampleTx)))
   \<and> \<not> hasListener (sub (run [On ''failed'' (Function (Fn 9 quiet)), RemoveListener,
        Emit ''block'' None, FireTimer]
        (new_world (new_TransactionSubscription (Resolves exampleTx))
           (getDefaultProvider exampleBackend))))"
proof -
  have m1: "methods readOnlyContract ''setValue'' = Some (WriteFunction setValueEntry)"
    by (simp add: readOnlyContract_def example_methods)
  have m2: "methods signingContract ''setValue'' = Some (WriteFunction setValueEntry)"
    by (simp add: signingContract_def example_methods)
  show ?thesis
    using m1 m2
      write_method [OF m1, where args = "[JStr ''x'']" and b = exampleBackend
        and a = exampleAddress and d = exampleABI and wl = JUndefined
        and p = "Resolves exampleTx" and pr = "getDefaultProvider exampleBackend"
        and as = "[On ''failed'' (Function (Fn 9 quiet)), RemoveListener,
          Emit ''block'' None, FireTimer]"]
      write_method [OF m2, where args = "[JStr ''x'']" and b = exampleBackend
        and a = exampleAddress and d = exampleABI and wl = exampleWallet
        and p = "Resolves exampleTx" and pr = "getDefaultProvider exampleBackend" and as = "[]"]
    by (simp add: new_Contract_readOnly new_Contract_signing)
       (simp add: readOnlyContract_def signingContract_def exampleBackend_def exampleSend_def
          setValueEntry_def exampleWallet_def isEthersJsSigner_def)
qed

subsection \<open>Read methods\<close>

text \<open>
  C3. A member bound as a read method checks no signer: its call returns, whatever the
  \<^verbatim>\<open>signer\<close> of the contract is, the promise of the remote call of the function, which
  is fulfilled with the decoded value when the remote call yields one. The call never
  throws and never returns a subscription.
\<close>

theorem read_method:
  assumes "methods c nm = Some (ReadFunction f)"
  shows "invoke c nm args =
           Returned (ReadResult (settled (call (remote (c_contract c)) (entry_name f) args)))
       \<and> invoke (c\<lparr>c_contract := (c_contract c)\<lparr>signer := sg\<rparr>\<rparr>) nm args = invoke c nm args
       \<and> (\<forall>v. call (remote (c_contract c)) (entry_name f) args = Inr v \<longrightarrow>
             invoke c nm args = Returned (ReadResult (Fulfilled v)))
       \<and> (\<forall>s. invoke c nm args \<noteq> Returned (WriteResult s))
       \<and> (\<forall>e. invoke c nm args \<noteq> Threw e)"
  using assms by (simp add: invoke_def readFunction_def)

text \<open>\<^verbatim>\<open>getValue()\<close> on the example contract built without a wallet.\<close>

theorem read_method_witness:
  "methods readOnlyContract ''getValue'' = Some (ReadFunction valueEntry)
   \<and> \<not> isEthersJsSigner (signer (c_contract readOnlyContract))
   \<and> call (remote (c_contract readOnlyContract)) (entry_name valueEntry) [] = Inr (JStr ''Hello'')
   \<and> invoke readOnlyContract ''getValue'' [] = Returned (ReadResult (Fulfilled (JStr ''Hello'')))
   \<and> invoke signingContract ''getValue'' [] = Returned (ReadResult (Fulfilled (JStr ''Hello'')))"
proof -
  have m1: "methods readOnlyContract ''getValue'' = Some (ReadFunction valueEntry)"
    by (simp add: readOnlyContract_def example_methods)
  have m2: "methods signingContract ''getValue'' = Some (ReadFunction valueEntry)"
    by (simp add: signingContract_def example_methods)
  have s1: "\<not> isEthersJsSigner (signer (c_contract readOnlyContract))"
    by (simp add: readOnlyContract_def isEthersJsSigner_def)
  have c1: "call (remote (c_contract readOnlyContract)) (entry_name valueEntry) [] =
      Inr (JStr ''Hello'')"
    by (simp add: readOnlyContract_def exampleBackend_def exampleCall_def)
  have c2: "call (remote (c_contract signingContract)) (entry_name valueEntry) [] =
      Inr (JStr ''Hello'')"
    by (simp add: signingContract_def exampleBackend_def exampleCall_def)
  from read_method [OF m1, where args = "[]" and sg = JNull] c1
  have i1: "invoke readOnlyContract ''getValue'' [] =
      Returned (ReadResult (Fulfilled (JStr ''Hello'')))"
    by blast
  from read_method [OF m2, where args = "[]" and sg = JNull] c2
  have i2: "invoke signingContract ''getValue'' [] =
      Returned (ReadResult (Fulfilled (JStr ''Hello'')))"
    by blast
  from m1 s1 c1 i1 i2 show ?thesis by blast
qed

section \<open>Validation at construction\<close>

text \<open>
  C8, as the code has it. The construction of a contract fails with an
  \<open>InvalidArgument\<close> error exactly when the address fails \<^verbatim>\<open>isAddress\<close>, or the
  descriptor fails \<^verbatim>\<open>isABI\<close>, or a wallet is given (a truthy value) that fails
  \<^verbatim>\<open>isEthersJsSigner\<close>. When it fails so, the provider object has been created and
  nothing has used it. \<^verbatim>\<open>isAddress\<close> holds of the strings of length 42 that start
  with \<^verbatim>\<open>0x\<close> and go on with hexadecimal digits, \<^verbatim>\<open>isABI\<close> of the arrays.
\<close>

theorem construction_validation:
  "(failsWith InvalidArgument (snd (new_Contract b a d wl)) \<longleftrightarrow>
      \<not> isAddress a \<or> \<not> isABI d \<or> (truthy wl \<and> \<not> isEthersJsSigner wl))
   \<and> (\<not> isAddress a \<or> \<not> isABI d \<longrightarrow>
        new_Contract b a d wl = ([ProviderCreated], Inl invalidContractError))
   \<and> (failsWith InvalidArgument (snd (new_Contract b a d wl)) \<longrightarrow>
        list_all (\<lambda>s. \<not> usesTransport s) (fst (new_Contract b a d wl)))
   \<and> (isAddress a \<longleftrightarrow> (\<exists>s. a = JStr s \<and> length s = 42 \<and> take 2 s = ''0x''
          \<and> list_all isHexDigit (drop 2 s)))
   \<and> (isABI d \<longleftrightarrow> (\<exists>xs. d = JArr xs))"
proof (intro conjI)
  show "failsWith InvalidArgument (snd (new_Contract b a d wl)) \<longleftrightarrow>
      \<not> isAddress a \<or> \<not> isABI d \<or> (truthy wl \<and> \<not> isEthersJsSigner wl)"
    by (auto simp: new_Contract_result failsWith_def kindOf_invalidContractError
        kindOf_invalidWalletError)
  show "\<not> isAddress a \<or> \<not> isABI d \<longrightarrow>
        new_Contract b a d wl = ([ProviderCreated], Inl invalidContractError)"
    by (simp add: new_Contract_result)
  show "failsWith InvalidArgument (snd (new_Contract b a d wl)) \<longrightarrow>
        list_all (\<lambda>s. \<not> usesTransport s) (fst (new_Contract b a d wl))"
    by (simp add: new_Contract_result failsWith_def)
  show "isAddress a \<longleftrightarrow> (\<exists>s. a = JStr s \<and> length s = 42 \<and> take 2 s = ''0x''
          \<and> list_all isHexDigit (drop 2 s))"
    by (rule isAddress_iff)
  show "isABI d \<longleftrightarrow> (\<exists>xs. d = JArr xs)" by (rule isABI_iff)
qed

text \<open>The address \<^verbatim>\<open>"not-hex"\<close>; and a construction that the checks let through.\<close>

theorem construction_validation_witness:
  "\<not> isAddress (JStr ''not-hex'')
   \<and> failsWith InvalidArgument
       (snd (new_Contract exampleBackend (JStr ''not-hex'') exampleABI JUndefined))
   \<and> new_Contract exampleBackend (JStr ''not-hex'') exampleABI JUndefined =
       ([ProviderCreated], Inl invalidContractError)
   \<and> list_all (\<lambda>s. \<not> usesTransport s)
       (fst (new_Contract exampleBackend (JStr ''not-hex'') exampleABI JUndefined))
   \<and> isAddress exampleAddress \<and> isABI exampleABI
   \<and> truthy exampleWallet \<and> isEthersJsSigner exampleWallet
   \<and> \<not> failsWith InvalidArgument
       (snd (new_Contract exampleBackend exampleAddress exampleABI exampleWallet))"
proof -
  note bad = construction_validation [of exampleBackend "JStr ''not-hex''" exampleABI JUndefined]
  note good = construction_validation [of exampleBackend exampleAddress exampleABI exampleWallet]
  have n: "\<not> isAddress (JStr ''not-hex'')" by (simp add: matchesAddressPattern_def)
  have abi: "isABI exampleABI" by (simp add: isABI_iff exampleABI_def)
  have w: "truthy exampleWallet \<and> isEthersJsSigner exampleWallet"
    by (simp add: exampleWallet_def isEthersJsSigner_def)
  from bad n have f: "failsWith InvalidArgument
       (snd (new_Contract exampleBackend (JStr ''not-hex'') exampleABI JUndefined))"
    by blast
  from bad n have e: "new_Contract exampleBackend (JStr ''not-hex'') exampleABI JUndefined =
       ([ProviderCreated], Inl invalidContractError)"
    by blast
  from bad f have u: "list_all (\<lambda>s. \<not> usesTransport s)
       (fst (new_Contract exampleBackend (JStr ''not-hex'') exampleABI JUndefined))"
    by blast
  from good isAddress_exampleAddress abi w
  have g: "\<not> failsWith InvalidArgument
       (snd (new_Contract exampleBackend exampleAddress exampleABI exampleWallet))"
    by blast
  from n f e u isAddress_exampleAddress abi w g show ?thesis by blast
qed

text \<open>The claim as written fails at a valid address and descriptor with a wallet that is
  no signer: the construction fails with an \<open>InvalidArgument\<close> error all the same.\<close>

theorem construction_validation_counterexample:
  "isAddress exampleAddress \<and> isABI exampleABI
   \<and> snd (new_Contract exampleBackend exampleAddress exampleABI notAWallet) = Inl invalidWalletError
   \<and> failsWith InvalidArgument
       (snd (new_Contract exampleBackend exampleAddress exampleABI notAWallet))"
  by (simp add: new_Contract_result failsWith_def kindOf_invalidWalletError
      isAddress_exampleAddress isABI_iff exampleABI_def notAWallet_def isEthersJsSigner_def)

section \<open>The two generations of the binder\<close>

lemma addFunctionsToContract_single:
  "isFunctionEntry f \<Longrightarrow> addFunctionsToContract [f] m =
     m(entry_name f \<mapsto>
       (if entry_stateMutability f = Some ''view'' then ReadFunction f else WriteFunction f))"
  by (simp add: addFunctionsToContract_def isWrite_def attachReadFunction_def
      attachWriteFunction_def)

lemma addFunctionsToContract_old_single:
  "isFunctionEntry f \<Longrightarrow> addFunctionsToContract_old [f] m =
     m(entry_name f \<mapsto>
       (if entry_constant f = Some True then ReadFunction f else WriteFunction f))"
  by (simp add: addFunctionsToContract_old_def isWrite_old_def attachReadFunction_def
      attachWriteFunction_def)

text \<open>
  C9, as the code has it. Of an entry of type \<^verbatim>\<open>function\<close> the binder of
  \<^verbatim>\<open>TasitAction.js\<close> makes a read method exactly when its \<^verbatim>\<open>stateMutability\<close> is
  \<^verbatim>\<open>"view"\<close>, and a write method otherwise; the older binder makes a read method
  exactly when its \<^verbatim>\<open>constant\<close> flag is true, and a write method otherwise. The two
  bind an entry alike exactly when its \<^verbatim>\<open>constant\<close> flag is true precisely if its
  \<^verbatim>\<open>stateMutability\<close> is \<^verbatim>\<open>"view"\<close>; on a descriptor all of whose function entries are
  such, they build the same methods.
\<close>

theorem binder_generations:
  "(isFunctionEntry f \<longrightarrow>
      addFunctionsToContract [f] m (entry_name f) =
        Some (if entry_stateMutability f = Some ''view'' then ReadFunction f else WriteFunction f)
    \<and> addFunctionsToContract_old [f] m (entry_name f) =
        Some (if entry_constant f = Some True then ReadFunction f else WriteFunction f)
    \<and> (addFunctionsToContract [f] m = addFunctionsToContract_old [f] m \<longleftrightarrow>
         (entry_constant f = Some True \<longleftrightarrow> entry_stateMutability f = Some ''view'')))
   \<and> ((\<forall>g \<in> set entries. isFunctionEntry g \<longrightarrow>
          (entry_constant g = Some True \<longleftrightarrow> entry_stateMutability g = Some ''view'')) \<longrightarrow>
        addFunctionsToContract entries m = addFunctionsToContract_old entries m)"
proof (intro conjI impI)
  assume f: "isFunctionEntry f"
  then show "addFunctionsToContract [f] m (entry_name f) =
        Some (if entry_stateMutability f = Some ''view'' then ReadFunction f else WriteFunction f)"
    by (simp add: addFunctionsToContract_single)
  from f show "addFunctionsToContract_old [f] m (entry_name f) =
        Some (if entry_constant f = Some True then ReadFunction f else WriteFunction f)"
    by (simp add: addFunctionsToContract_old_single)
  show "addFunctionsToContract [f] m = addFunctionsToContract_old [f] m \<longleftrightarrow>
         (entry_constant f = Some True \<longleftrightarrow> entry_stateMutability f = Some ''view'')"
  proof
    assume "addFunctionsToContract [f] m = addFunctionsToContract_old [f] m"
    then have "addFunctionsToContract [f] m (entry_name f) =
        addFunctionsToContract_old [f] m (entry_name f)"
      by simp
    with f show "entry_constant f = Some True \<longleftrightarrow> entry_stateMutability f = Some ''view''"
      by (simp add: addFunctionsToContract_single addFunctionsToContract_old_single
          split: if_splits)
  next
    assume "entry_constant f = Some True \<longleftrightarrow> entry_stateMutability f = Some ''view''"
    with f show "addFunctionsToContract [f] m = addFunctionsToContract_old [f] m"
      by (simp add: addFunctionsToContract_single addFunctionsToContract_old_single)
  qed
next
  assume a: "\<forall>g \<in> set entries. isFunctionEntry g \<longrightarrow>
          (entry_constant g = Some True \<longleftrightarrow> entry_stateMutability g = Some ''view'')"
  show "addFunctionsToContract entries m = addFunctionsToContract_old entries m"
    unfolding addFunctionsToContract_def addFunctionsToContract_old_def
    by (rule fold_cong) (use a in \<open>auto simp: isWrite_def isWrite_old_def\<close>)
qed

text \<open>The descriptor of the example: a view function and a non-payable one.\<close>

theorem binder_generations_witness:
  "isFunctionEntry valueEntry \<and> isFunctionEntry setValueEntry
   \<and> addFunctionsToContract [valueEntry, setValueEntry] Map.empty
       = addFunctionsToContract_old [valueEntry, setValueEntry] Map.empty
   \<and> addFunctionsToContract [valueEntry] Map.empty ''getValue'' = Some (ReadFunction valueEntry)
   \<and> addFunctionsToContract_old [valueEntry] Map.empty ''getValue'' = Some (ReadFunction valueEntry)
   \<and> addFunctionsToContract [setValueEntry] Map.empty ''setValue'' = Some (WriteFunction setValueEntry)
   \<and> addFunctionsToContract_old [setValueEntry] Map.empty ''setValue'' = Some (WriteFunction setValueEntry)"
  using binder_generations [of valueEntry Map.empty "[valueEntry, setValueEntry]"]
    binder_generations [of setValueEntry Map.empty "[]"]
  by (simp add: isFunctionEntry_def valueEntry_def setValueEntry_def)

text \<open>The claim as written fails at a pure function, as the compiler describes it
  (\<^verbatim>\<open>constant\<close> true, \<^verbatim>\<open>stateMutability\<close> \<^verbatim>\<open>"pure"\<close>): the binder of
  \<^verbatim>\<open>TasitAction.js\<close> makes it a write method, the older one a read method.\<close>

theorem binder_generations_counterexample:
  "isFunctionEntry pureEntry
   \<and> addFunctionsToContract [pureEntry] Map.empty ''double'' = Some (WriteFunction pureEntry)
   \<and> addFunctionsToContract_old [pureEntry] Map.empty ''double'' = Some (ReadFunction pureEntry)"
  by (simp add: addFunctionsToContract_def addFunctionsToContract_old_def isWrite_def
      isWrite_old_def attachReadFunction_def attachWriteFunction_def isFunctionEntry_def
      pureEntry_def)

end
